theory Spec2Isabelle
  imports Complex_Main
begin

section \<open>Python values, exceptions and the list store\<close>

text \<open>
  The model follows \<^verbatim>\<open>src/asmbase.py\<close> (class \<^verbatim>\<open>asm_model\<close>) and
  \<^verbatim>\<open>src/ASM2d_N2O.py\<close> (class \<^verbatim>\<open>ASM2d_N2O\<close>). Python floats are
  modelled as the reals: rounding, overflow and NaN are not followed. What the
  interpreter raises is a value of the model: an out-of-range subscript is
  \<open>IndexError\<close>, a missing dictionary key is \<open>KeyError\<close>, a division by zero is
  \<open>ZeroDivisionError\<close>, and a subscript on a bound method is \<open>TypeError\<close>.
  \<open>InvalidParameterError\<close> and \<open>InvalidEnvironmentError\<close> are the two error kinds
  that the specification names; no statement of the source constructs them.
  \<open>ComplexResult\<close> is not an exception of Python: it marks a power of a negative base
  with a fractional exponent, where Python leaves the reals for a complex number.
\<close>

datatype py_exception =
  IndexError | KeyError | ZeroDivisionError | TypeError
  | InvalidParameterError | InvalidEnvironmentError
  | ComplexResult

datatype pyval = Val real | Raise py_exception

definition pybind :: "pyval \<Rightarrow> (real \<Rightarrow> pyval) \<Rightarrow> pyval" where
  "pybind a f = (case a of Raise e \<Rightarrow> Raise e | Val x \<Rightarrow> f x)"

text \<open>
  Arithmetic on outcomes evaluates the left operand, then the right one, then the
  operation, as Python does; \<open>/\<close> is Python's true division.
\<close>

instantiation pyval :: "{plus, minus, times, inverse}"
begin

definition plus_pyval :: "pyval \<Rightarrow> pyval \<Rightarrow> pyval" where
  "plus_pyval a b = pybind a (\<lambda>x. pybind b (\<lambda>y. Val (x + y)))"

definition minus_pyval :: "pyval \<Rightarrow> pyval \<Rightarrow> pyval" where
  "minus_pyval a b = pybind a (\<lambda>x. pybind b (\<lambda>y. Val (x - y)))"

definition times_pyval :: "pyval \<Rightarrow> pyval \<Rightarrow> pyval" where
  "times_pyval a b = pybind a (\<lambda>x. pybind b (\<lambda>y. Val (x * y)))"

definition divide_pyval :: "pyval \<Rightarrow> pyval \<Rightarrow> pyval" where
  "divide_pyval a b =
     pybind a (\<lambda>x. pybind b (\<lambda>y. if y = 0 then Raise ZeroDivisionError else Val (x / y)))"

definition inverse_pyval :: "pyval \<Rightarrow> pyval" where
  "inverse_pyval a = divide (Val 1) a"

instance ..

end

text \<open>
  \<^verbatim>\<open>x ** y\<close> on floats: a zero base with a negative exponent raises, a negative
  base with a fractional exponent gives a complex number.
\<close>

definition py_pow :: "pyval \<Rightarrow> pyval \<Rightarrow> pyval" where
  "py_pow a b =
     pybind a (\<lambda>x. pybind b (\<lambda>y.
       if 0 < x then Val (x powr y)
       else if x = 0 then
         (if y = 0 then Val 1 else if 0 < y then Val 0 else Raise ZeroDivisionError)
       else if y = of_int \<lfloor>y\<rfloor> then Val (x powi \<lfloor>y\<rfloor>)
       else Raise ComplexResult))"

definition py_exp :: "pyval \<Rightarrow> pyval" where
  "py_exp a = pybind a (\<lambda>x. Val (exp x))"

definition dict_get :: "(string \<rightharpoonup> real) \<Rightarrow> string \<Rightarrow> pyval" where
  "dict_get d k = (case d k of None \<Rightarrow> Raise KeyError | Some v \<Rightarrow> Val v)"

text \<open>Every list subscript of the source is a non-negative literal.\<close>

definition list_get :: "real list \<Rightarrow> nat \<Rightarrow> pyval" where
  "list_get xs i = (if i < length xs then Val (xs ! i) else Raise IndexError)"

text \<open>
  The model object and the lists it can share with its caller. A list is a
  reference into \<open>store\<close>; \<open>next_addr\<close> is the next unused address; \<open>stdout\<close> collects
  what \<^verbatim>\<open>print\<close> writes. The dictionaries are never handed out (the accessors
  return copies), so they are values of the record.
\<close>

type_synonym addr = nat

record state =
  store :: "addr \<Rightarrow> real list"
  next_addr :: addr
  stdout :: "string list"
  self_temperature :: real
  self_bulk_DO :: real
  self_kinetics_20C :: "string \<rightharpoonup> real"
  self_params :: "string \<rightharpoonup> real"
  self_stoichs :: "string \<rightharpoonup> real"
  self_comps :: addr
  self_delta_t :: real
  self_KLa :: real
  self_monods :: addr
  self_rate_res :: addr

definition new_list :: "real list \<Rightarrow> state \<Rightarrow> addr \<times> state" where
  "new_list xs s =
     (next_addr s, s\<lparr>store := (store s)(next_addr s := xs), next_addr := Suc (next_addr s)\<rparr>)"

text \<open>
  A method body made of subscript assignments \<^verbatim>\<open>target[key] = expression\<close> is the
  list of its (key, expression) pairs in source order. \<open>run\<close> executes it: the
  expression is evaluated first, then the target is assigned; the first exception ends
  the body and leaves the assignments made so far in place.
\<close>

type_synonym 'k assign = "'k \<times> (state \<Rightarrow> pyval)"

type_synonym 'k put = "'k \<Rightarrow> real \<Rightarrow> state \<Rightarrow> state \<times> py_exception option"

fun run :: "'k put \<Rightarrow> 'k assign list \<Rightarrow> state \<Rightarrow> state \<times> py_exception option" where
  "run put [] s = (s, None)"
| "run put ((k, e) # as) s =
     (case e s of
        Raise x \<Rightarrow> (s, Some x)
      | Val v \<Rightarrow>
          (case put k v s of
             (s', Some x) \<Rightarrow> (s', Some x)
           | (s', None) \<Rightarrow> run put as s'))"

definition list_put :: "addr \<Rightarrow> nat \<Rightarrow> real \<Rightarrow> state \<Rightarrow> state \<times> py_exception option" where
  "list_put a i v s =
     (if i < length (store s a)
      then (s\<lparr>store := (store s)(a := (store s a)[i := v])\<rparr>, None)
      else (s, Some IndexError))"

definition monods_put :: "nat put" where
  "monods_put i v s = list_put (self_monods s) i v s"

definition rate_res_put :: "nat put" where
  "rate_res_put i v s = list_put (self_rate_res s) i v s"

definition kinetics_20C_put :: "string put" where
  "kinetics_20C_put k v s = (s\<lparr>self_kinetics_20C := (self_kinetics_20C s)(k \<mapsto> v)\<rparr>, None)"

definition params_put :: "string put" where
  "params_put k v s = (s\<lparr>self_params := (self_params s)(k \<mapsto> v)\<rparr>, None)"

definition stoichs_put :: "string put" where
  "stoichs_put k v s = (s\<lparr>self_stoichs := (self_stoichs s)(k \<mapsto> v)\<rparr>, None)"

section \<open>The base class \<^verbatim>\<open>asm_model\<close>\<close>

text \<open>
  \<^verbatim>\<open>asm_model.__init__\<close>: the attributes of a fresh object. The object is created
  in the caller's state, of which only the store, the next address and the output are
  read.
\<close>

definition asm_model_init :: "state \<Rightarrow> real \<Rightarrow> real \<Rightarrow> state" where
  "asm_model_init s ww_temp DO =
     (let (a, s1) = new_list [] s
      in s1\<lparr>self_temperature := ww_temp,
            self_bulk_DO := DO,
            self_kinetics_20C := Map.empty,
            self_params := Map.empty,
            self_stoichs := Map.empty,
            self_comps := a,
            self_delta_t := ww_temp - 20,
            self_KLa := 60 * 24 / (9 - 2)\<rparr>)"

text \<open>
  \<^verbatim>\<open>alter_kinetic_20C\<close> and \<^verbatim>\<open>set_KLa\<close>: a rejected value is reported with
  \<^verbatim>\<open>print\<close>; both return \<^verbatim>\<open>None\<close> on every path.
\<close>

definition alter_kinetic_20C :: "state \<Rightarrow> string \<Rightarrow> real \<Rightarrow> state \<times> py_exception option" where
  "alter_kinetic_20C s name new_val =
     (if new_val > 0 \<and> self_kinetics_20C s name \<noteq> None
      then (s\<lparr>self_kinetics_20C := (self_kinetics_20C s)(name \<mapsto> new_val)\<rparr>, None)
      else (s\<lparr>stdout := stdout s @ [''ERROR IN ALTERING 20C KINETICS. NO PARAMETER WAS CHANGED'']\<rparr>,
            None))"

definition set_KLa :: "state \<Rightarrow> real \<Rightarrow> state \<times> py_exception option" where
  "set_KLa s kla =
     (if kla > 0
      then (s\<lparr>self_KLa := kla\<rparr>, None)
      else (s\<lparr>stdout := stdout s @ [''ERROR IN USER GIVEN KLa VALUE. KLa NOT CHANGED'']\<rparr>, None))"

text \<open>
  The accessors: \<^verbatim>\<open>get_params\<close> and \<^verbatim>\<open>get_stoichs\<close> return a copy of the
  dictionary (the same mapping, as a value), \<^verbatim>\<open>get_all_comps\<close> a new list.
\<close>

definition get_params :: "state \<Rightarrow> (string \<rightharpoonup> real)" where
  "get_params s = self_params s"

definition get_stoichs :: "state \<Rightarrow> (string \<rightharpoonup> real)" where
  "get_stoichs s = self_stoichs s"

definition get_all_comps :: "state \<Rightarrow> addr \<times> state" where
  "get_all_comps s = new_list (store s (self_comps s)) s"

definition get_bulk_DO :: "state \<Rightarrow> real" where
  "get_bulk_DO s = self_bulk_DO s"

text \<open>\<^verbatim>\<open>_monod\<close>: both arguments are evaluated, then the quotient.\<close>

definition monod :: "pyval \<Rightarrow> pyval \<Rightarrow> pyval" where
  "monod term_in_num_denum term_only_in_denum =
     pybind term_in_num_denum (\<lambda>a. pybind term_only_in_denum (\<lambda>b. Val a / (Val a + Val b)))"

text \<open>\<^verbatim>\<open>self._monod[...]\<close>: a bound method has no subscript.\<close>

definition method_subscript :: "pyval \<Rightarrow> pyval" where
  "method_subscript i = pybind i (\<lambda>_. Raise TypeError)"

section \<open>The model class \<^verbatim>\<open>ASM2d_N2O\<close>\<close>

subsection \<open>\<^verbatim>\<open>_set_ideal_kinetics_20C_to_defaults\<close> and \<^verbatim>\<open>_set_params\<close>\<close>

text \<open>
  Each line of \<^verbatim>\<open>_set_ideal_kinetics_20C_to_defaults\<close> assigns a literal to one
  name; \<open>ideal_kinetics_20C_table\<close> lists the (name, literal) pairs in the order of the
  lines.
\<close>

definition ideal_kinetics_20C_table :: "(string \<times> real) list" where
  "ideal_kinetics_20C_table = [
     (''i_NSF'', 0.03), (''i_PSF'', 0.01), (''i_NSI'', 0.01), (''i_PSI'', 0),
     (''i_NXI'', 0.02), (''i_PXI'', 0.01), (''i_TSSXI'', 0.75), (''i_NXS'', 0.04),
     (''i_PXS'', 0.01), (''i_TSSXS'', 0.75), (''i_NBM'', 0.07), (''i_PBM'', 0.02),
     (''i_TSSBM'', 0.9), (''Y_H'', 0.625), (''Y_PHA'', 0.2), (''Y_PAO'', 0.625),
     (''Y_PO4'', 0.4), (''Y_AOB'', 0.18), (''Y_NOB'', 0.08), (''f_SI'', 0),
     (''f_XI'', 0.1), (''n_G'', 1), (''K_H'', 3), (''K_O2_H'', 0.2),
     (''K_X_H'', 0.1), (''n_NO3_H'', 0.6), (''n_NO2_H'', 0.6), (''K_NO3_H'', 0.5),
     (''K_NO2_H'', 0.5), (''n_fe_H'', 0.4), (''mu_H'', 6), (''K_O2'', 0.2),
     (''K_F'', 4), (''K_NH4'', 0.05), (''K_P'', 0.01), (''K_ALK'', 0.1),
     (''K_A'', 4), (''K_NO3'', 0.5), (''K_NO2'', 0.5), (''n_NO3_D'', 0.8),
     (''q_fe'', 3), (''K_fe_H'', 4), (''b_H'', 0.4), (''mu_H_Den'', 6.25),
     (''n_G3'', 0.16), (''n_G4'', 0.35), (''n_G5'', 0.35), (''K_S3'', 20),
     (''K_S4'', 20), (''K_S5'', 40), (''K_NO2_Den'', 0.2), (''K_OH4'', 0.1),
     (''K_N2O_Den'', 0.05), (''K_OH3'', 0.1), (''K_NO_Den'', 0.05), (''K_OH5'', 0.1),
     (''K_I3NO'', 0.5), (''K_I4NO'', 0.3), (''K_I5NO'', 0.075), (''q_PHA'', 3),
     (''K_A_P'', 4), (''K_ALK_P'', 0.1), (''q_PP'', 1.5), (''K_O2_P'', 0.2),
     (''K_P_P'', 0.2), (''K_PHA_P'', 0.01), (''K_MAX_P'', 0.34), (''K_PP_P'', 0.01),
     (''K_IPP_P'', 0.02), (''K_PO4_P'', 0.01), (''n_NO3_P'', 0.6), (''n_NO2_P'', 0.6),
     (''K_NO3_P'', 0.5), (''K_NO2_P'', 0.5), (''mu_PAO'', 1), (''b_PAO'', 0.2),
     (''b_PP'', 0.2), (''b_PHA'', 0.2), (''mu_AOB_HAO'', 0.78), (''q_AOB_AMO'', 5.2008),
     (''K_O2_AOB1'', 1), (''K_NH4_AOB'', 0.2), (''K_O2_AOB2'', 0.6), (''K_NH2OH_AOB'', 0.9),
     (''q_AOB_HAO'', 5.2008), (''K_NO_AOB_HAO'', 0.0003), (''q_AOB_N2O_NN'', 0.0078), (''K_NO_AOB_NN'', 0.008),
     (''K_O2_AOB_ND'', 0.5), (''K_I_O2_AOB'', 0.8), (''K_HNO2_AOB'', 0.004), (''q_AOB_N2O_ND'', 1.3008),
     (''K_ALK_AOB'', 0.1), (''K_P_AOB'', 0.01), (''mu_NOB'', 0.78), (''K_O2_NOB'', 1.2),
     (''K_ALK_NOB'', 0.1), (''K_NO2_NOB'', 0.5), (''K_P_NOB'', 0.01), (''b_AOB'', 0.096),
     (''b_NOB'', 0.096), (''k_PRE'', 1), (''k_RED'', 0.6), (''K_ALK_PR'', 0.5)]"

definition set_ideal_kinetics_20C_to_defaults :: "state \<Rightarrow> state \<times> py_exception option" where
  "set_ideal_kinetics_20C_to_defaults =
     run kinetics_20C_put (map (\<lambda>(k, v). (k, \<lambda>s. Val v)) ideal_kinetics_20C_table)"

text \<open>
  Each line of \<^verbatim>\<open>_set_params\<close> copies one reference constant into the working
  parameters under the same name (the temperature correction is a TODO of the source).
  \<open>set_params_keys\<close> lists the names in the order of the lines.
\<close>

definition set_params_keys :: "string list" where
  "set_params_keys = [
     ''i_NSF'', ''i_PSF'', ''i_NSI'', ''i_PSI'', ''i_NXI'', ''i_PXI'',
     ''i_TSSXI'', ''i_NXS'', ''i_PXS'', ''i_TSSXS'', ''i_NBM'', ''i_PBM'',
     ''i_TSSBM'', ''Y_H'', ''Y_PHA'', ''Y_PAO'', ''Y_PO4'', ''Y_AOB'',
     ''Y_NOB'', ''f_SI'', ''f_XI'', ''n_G'', ''K_H'', ''K_O2_H'',
     ''K_X_H'', ''n_NO3_H'', ''n_NO2_H'', ''K_NO3_H'', ''K_NO2_H'', ''n_fe_H'',
     ''mu_H'', ''K_O2'', ''K_F'', ''K_NH4'', ''K_P'', ''K_ALK'',
     ''K_A'', ''K_NO3'', ''K_NO2'', ''n_NO3_D'', ''q_fe'', ''K_fe_H'',
     ''b_H'', ''mu_H_Den'', ''n_G3'', ''n_G4'', ''n_G5'', ''K_S3'',
     ''K_S4'', ''K_S5'', ''K_NO2_Den'', ''K_OH4'', ''K_N2O_Den'', ''K_OH3'',
     ''K_NO_Den'', ''K_OH5'', ''K_I3NO'', ''K_I4NO'', ''K_I5NO'', ''q_PHA'',
     ''K_A_P'', ''K_ALK_P'', ''q_PP'', ''K_O2_P'', ''K_P_P'', ''K_PHA_P'',
     ''K_MAX_P'', ''K_PP_P'', ''K_IPP_P'', ''K_PO4_P'', ''n_NO3_P'', ''n_NO2_P'',
     ''K_NO3_P'', ''K_NO2_P'', ''mu_PAO'', ''b_PAO'', ''b_PP'', ''b_PHA'',
     ''mu_AOB_HAO'', ''q_AOB_AMO'', ''K_O2_AOB1'', ''K_NH4_AOB'', ''K_O2_AOB2'', ''K_NH2OH_AOB'',
     ''q_AOB_HAO'', ''K_NO_AOB_HAO'', ''q_AOB_N2O_NN'', ''K_NO_AOB_NN'', ''K_O2_AOB_ND'', ''K_I_O2_AOB'',
     ''K_HNO2_AOB'', ''q_AOB_N2O_ND'', ''K_ALK_AOB'', ''K_P_AOB'', ''mu_NOB'', ''K_O2_NOB'',
     ''K_ALK_NOB'', ''K_NO2_NOB'', ''K_P_NOB'', ''b_AOB'', ''b_NOB'', ''k_PRE'',
     ''k_RED'', ''K_ALK_PR'']"

definition set_params :: "state \<Rightarrow> state \<times> py_exception option" where
  "set_params =
     run params_put (map (\<lambda>k. (k, \<lambda>s. dict_get (self_kinetics_20C s) k)) set_params_keys)"

subsection \<open>\<^verbatim>\<open>_set_stoichs\<close>, one block per process row\<close>

definition stoichs_row_1 :: "string assign list" where
  "stoichs_row_1 = [
     (''1_2'', \<lambda>s. Val 1 - dict_get (self_params s) ''f_SI''),
     (''1_4'', \<lambda>s. dict_get (self_params s) ''i_NXS'' - (Val 1 - dict_get (self_params s) ''f_SI'') * dict_get (self_params s) ''i_NSF''),
     (''1_10'', \<lambda>s. dict_get (self_params s) ''i_PXS'' - (Val 1 - dict_get (self_params s) ''f_SI'') * dict_get (self_params s) ''i_PSF''),
     (''1_11'', \<lambda>s. dict_get (self_params s) ''f_SI''),
     (''1_15'', \<lambda>s. Val (- 1)),
     (''1_12'', \<lambda>s. (Val 1 / Val 14) * dict_get (self_stoichs s) ''1_4'' + (Val (- 1.5) / Val 31) * dict_get (self_stoichs s) ''1_10''),
     (''1_22'', \<lambda>s. dict_get (self_params s) ''i_TSSXS'' * dict_get (self_stoichs s) ''1_15'')]"

definition stoichs_row_2 :: "string assign list" where
  "stoichs_row_2 = [
     (''2_2'', \<lambda>s. Val 1 - dict_get (self_params s) ''f_SI''),
     (''2_4'', \<lambda>s. dict_get (self_params s) ''i_NXS'' - (Val 1 - dict_get (self_params s) ''f_SI'') * dict_get (self_params s) ''i_NSF''),
     (''2_10'', \<lambda>s. dict_get (self_params s) ''i_PXS'' - (Val 1 - dict_get (self_params s) ''f_SI'') * dict_get (self_params s) ''i_PSF''),
     (''2_11'', \<lambda>s. dict_get (self_params s) ''f_SI''),
     (''2_15'', \<lambda>s. Val (- 1)),
     (''2_12'', \<lambda>s. (Val 1 / Val 14) * dict_get (self_stoichs s) ''2_4'' + (Val (- 1.5) / Val 31) * dict_get (self_stoichs s) ''2_10''),
     (''2_22'', \<lambda>s. dict_get (self_params s) ''i_TSSXS'' * dict_get (self_stoichs s) ''2_15'')]"

definition stoichs_row_3 :: "string assign list" where
  "stoichs_row_3 = [
     (''3_2'', \<lambda>s. Val 1 - dict_get (self_params s) ''f_SI''),
     (''3_4'', \<lambda>s. dict_get (self_params s) ''i_NXS'' - (Val 1 - dict_get (self_params s) ''f_SI'') * dict_get (self_params s) ''i_NSF''),
     (''3_10'', \<lambda>s. dict_get (self_params s) ''i_PXS'' - (Val 1 - dict_get (self_params s) ''f_SI'') * dict_get (self_params s) ''i_PSF''),
     (''3_11'', \<lambda>s. dict_get (self_params s) ''f_SI''),
     (''3_15'', \<lambda>s. Val (- 1)),
     (''3_12'', \<lambda>s. (Val 1 / Val 14) * dict_get (self_stoichs s) ''3_4'' + (Val (- 1.5) / Val 31) * dict_get (self_stoichs s) ''3_10''),
     (''3_22'', \<lambda>s. dict_get (self_params s) ''i_TSSXS'' * dict_get (self_stoichs s) ''3_15'')]"

definition stoichs_row_4 :: "string assign list" where
  "stoichs_row_4 = [
     (''4_2'', \<lambda>s. Val 1 - dict_get (self_params s) ''f_SI''),
     (''4_4'', \<lambda>s. dict_get (self_params s) ''i_NXS'' - (Val 1 - dict_get (self_params s) ''f_SI'') * dict_get (self_params s) ''i_NSF''),
     (''4_10'', \<lambda>s. dict_get (self_params s) ''i_PXS'' - (Val 1 - dict_get (self_params s) ''f_SI'') * dict_get (self_params s) ''i_PSF''),
     (''4_11'', \<lambda>s. dict_get (self_params s) ''f_SI''),
     (''4_15'', \<lambda>s. Val (- 1)),
     (''4_12'', \<lambda>s. (Val 1 / Val 14) * dict_get (self_stoichs s) ''4_4'' + (Val (- 1.5) / Val 31) * dict_get (self_stoichs s) ''4_10''),
     (''4_22'', \<lambda>s. dict_get (self_params s) ''i_TSSXS'' * dict_get (self_stoichs s) ''4_15'')]"

definition stoichs_row_5 :: "string assign list" where
  "stoichs_row_5 = [
     (''5_1'', \<lambda>s. Val 1 - Val 1 / dict_get (self_params s) ''Y_H''),
     (''5_2'', \<lambda>s. Val (- 1) / dict_get (self_params s) ''Y_H''),
     (''5_4'', \<lambda>s. (dict_get (self_params s) ''i_NSF'' / dict_get (self_params s) ''Y_H'') - dict_get (self_params s) ''i_NBM''),
     (''5_10'', \<lambda>s. (dict_get (self_params s) ''i_PSF'' / dict_get (self_params s) ''Y_H'') - dict_get (self_params s) ''i_PBM''),
     (''5_16'', \<lambda>s. Val 1),
     (''5_12'', \<lambda>s. (Val 1 / Val 14) * dict_get (self_stoichs s) ''5_4'' + (Val (- 1.5) / Val 31) * dict_get (self_stoichs s) ''5_10''),
     (''5_22'', \<lambda>s. dict_get (self_params s) ''i_TSSBM'' * dict_get (self_stoichs s) ''5_16'')]"

definition stoichs_row_6 :: "string assign list" where
  "stoichs_row_6 = [
     (''6_1'', \<lambda>s. Val 1 - Val 1 / dict_get (self_params s) ''Y_H''),
     (''6_3'', \<lambda>s. Val (- 1) / dict_get (self_params s) ''Y_H''),
     (''6_4'', \<lambda>s. Val 0 - dict_get (self_params s) ''i_NBM''),
     (''6_10'', \<lambda>s. Val 0 - dict_get (self_params s) ''i_PBM''),
     (''6_16'', \<lambda>s. Val 1),
     (''6_12'', \<lambda>s. (Val (- 1) / Val 64) * dict_get (self_stoichs s) ''6_3'' + (Val 1 / Val 14) * dict_get (self_stoichs s) ''6_4'' + (Val (- 1.5) / Val 31) * dict_get (self_stoichs s) ''6_10''),
     (''6_22'', \<lambda>s. dict_get (self_params s) ''i_TSSBM'' * dict_get (self_stoichs s) ''6_16'')]"

definition stoichs_row_7 :: "string assign list" where
  "stoichs_row_7 = [
     (''7_2'', \<lambda>s. Val (- 1) / (dict_get (self_params s) ''Y_H'' * dict_get (self_params s) ''n_G'')),
     (''7_4'', \<lambda>s. (dict_get (self_params s) ''i_NSF'' / dict_get (self_params s) ''Y_H'') - dict_get (self_params s) ''i_NBM''),
     (''7_8'', \<lambda>s. (Val 1 - dict_get (self_params s) ''Y_H'' * dict_get (self_params s) ''n_G'') / ((Val 8 / Val 7) * dict_get (self_params s) ''Y_H'' * dict_get (self_params s) ''n_G'')),
     (''7_9'', \<lambda>s. Val 0 - (Val 1 - dict_get (self_params s) ''Y_H'' * dict_get (self_params s) ''n_G'') / ((Val 8 / Val 7) * dict_get (self_params s) ''Y_H'' * dict_get (self_params s) ''n_G'')),
     (''7_10'', \<lambda>s. (dict_get (self_params s) ''i_PSF'' / dict_get (self_params s) ''Y_H'') - dict_get (self_params s) ''i_PBM''),
     (''7_16'', \<lambda>s. Val 1),
     (''7_12'', \<lambda>s. (Val 1 / Val 14) * dict_get (self_stoichs s) ''7_4'' + (Val (- 1) / Val 14) * dict_get (self_stoichs s) ''7_8'' + (Val (- 1) / Val 14) * dict_get (self_stoichs s) ''7_9'' + (Val (- 1.5) / Val 31) * dict_get (self_stoichs s) ''7_10''),
     (''7_22'', \<lambda>s. dict_get (self_params s) ''i_TSSBM'' * dict_get (self_stoichs s) ''7_16'')]"

definition stoichs_row_8 :: "string assign list" where
  "stoichs_row_8 = [
     (''8_2'', \<lambda>s. Val (- 1) / (dict_get (self_params s) ''Y_H'' * dict_get (self_params s) ''n_G'')),
     (''8_4'', \<lambda>s. (dict_get (self_params s) ''i_NSF'' / dict_get (self_params s) ''Y_H'') - dict_get (self_params s) ''i_NBM''),
     (''8_7'', \<lambda>s. (Val 1 - dict_get (self_params s) ''Y_H'' * dict_get (self_params s) ''n_G'') / ((Val 4 / Val 7) * dict_get (self_params s) ''Y_H'' * dict_get (self_params s) ''n_G'')),
     (''8_8'', \<lambda>s. Val 0 - (Val 1 - dict_get (self_params s) ''Y_H'' * dict_get (self_params s) ''n_G'') / ((Val 4 / Val 7) * dict_get (self_params s) ''Y_H'' * dict_get (self_params s) ''n_G'')),
     (''8_10'', \<lambda>s. (dict_get (self_params s) ''i_PSF'' / dict_get (self_params s) ''Y_H'') - dict_get (self_params s) ''i_PBM''),
     (''8_16'', \<lambda>s. Val 1),
     (''8_12'', \<lambda>s. (Val 1 / Val 14) * dict_get (self_stoichs s) ''8_4'' + (Val (- 1) / Val 14) * dict_get (self_stoichs s) ''8_8'' + (Val (- 1.5) / Val 31) * dict_get (self_stoichs s) ''8_10''),
     (''8_22'', \<lambda>s. dict_get (self_params s) ''i_TSSBM'' * dict_get (self_stoichs s) ''8_16'')]"

definition stoichs_row_9 :: "string assign list" where
  "stoichs_row_9 = [
     (''9_2'', \<lambda>s. Val (- 1) / (dict_get (self_params s) ''Y_H'' * dict_get (self_params s) ''n_G'')),
     (''9_4'', \<lambda>s. (dict_get (self_params s) ''i_NSF'' / dict_get (self_params s) ''Y_H'') - dict_get (self_params s) ''i_NBM''),
     (''9_6'', \<lambda>s. (Val 1 - dict_get (self_params s) ''Y_H'' * dict_get (self_params s) ''n_G'') / ((Val 4 / Val 7) * dict_get (self_params s) ''Y_H'' * dict_get (self_params s) ''n_G'')),
     (''9_7'', \<lambda>s. Val 0 - (Val 1 - dict_get (self_params s) ''Y_H'' * dict_get (self_params s) ''n_G'') / ((Val 4 / Val 7) * dict_get (self_params s) ''Y_H'' * dict_get (self_params s) ''n_G'')),
     (''9_10'', \<lambda>s. (dict_get (self_params s) ''i_PSF'' / dict_get (self_params s) ''Y_H'') - dict_get (self_params s) ''i_PBM''),
     (''9_16'', \<lambda>s. Val 1),
     (''9_12'', \<lambda>s. (Val 1 / Val 14) * dict_get (self_stoichs s) ''9_4'' + (Val (- 1.5) / Val 31) * dict_get (self_stoichs s) ''9_10''),
     (''9_22'', \<lambda>s. dict_get (self_params s) ''i_TSSBM'' * dict_get (self_stoichs s) ''9_16'')]"

definition stoichs_row_10 :: "string assign list" where
  "stoichs_row_10 = [
     (''10_2'', \<lambda>s. Val (- 1) / (dict_get (self_params s) ''Y_H'' * dict_get (self_params s) ''n_G'')),
     (''10_4'', \<lambda>s. (dict_get (self_params s) ''i_NSF'' / dict_get (self_params s) ''Y_H'') - dict_get (self_params s) ''i_NBM''),
     (''10_6'', \<lambda>s. Val 0 - (Val 1 - dict_get (self_params s) ''Y_H'' * dict_get (self_params s) ''n_G'') / ((Val 4 / Val 7) * dict_get (self_params s) ''Y_H'' * dict_get (self_params s) ''n_G'')),
     (''10_10'', \<lambda>s. (dict_get (self_params s) ''i_PSF'' / dict_get (self_params s) ''Y_H'') - dict_get (self_params s) ''i_PBM''),
     (''10_13'', \<lambda>s. (Val 1 - dict_get (self_params s) ''Y_H'' * dict_get (self_params s) ''n_G'') / ((Val 4 / Val 7) * dict_get (self_params s) ''Y_H'' * dict_get (self_params s) ''n_G'')),
     (''10_16'', \<lambda>s. Val 1),
     (''10_12'', \<lambda>s. (Val 1 / Val 14) * dict_get (self_stoichs s) ''10_4'' + (Val (- 1.5) / Val 31) * dict_get (self_stoichs s) ''10_10''),
     (''10_22'', \<lambda>s. dict_get (self_params s) ''i_TSSBM'' * dict_get (self_stoichs s) ''10_16'')]"

definition stoichs_row_11 :: "string assign list" where
  "stoichs_row_11 = [
     (''11_3'', \<lambda>s. Val (- 1) / (dict_get (self_params s) ''Y_H'' * dict_get (self_params s) ''n_G'')),
     (''11_4'', \<lambda>s. Val 0 - dict_get (self_params s) ''i_NBM''),
     (''11_8'', \<lambda>s. (Val 1 - dict_get (self_params s) ''Y_H'' * dict_get (self_params s) ''n_G'') / ((Val 8 / Val 7) * dict_get (self_params s) ''Y_H'' * dict_get (self_params s) ''n_G'')),
     (''11_9'', \<lambda>s. Val 0 - (Val 1 - dict_get (self_params s) ''Y_H'' * dict_get (self_params s) ''n_G'') / ((Val 8 / Val 7) * dict_get (self_params s) ''Y_H'' * dict_get (self_params s) ''n_G'')),
     (''11_10'', \<lambda>s. Val 0 - dict_get (self_params s) ''i_PBM''),
     (''11_16'', \<lambda>s. Val 1),
     (''11_12'', \<lambda>s. (Val (- 1) / Val 64) * dict_get (self_stoichs s) ''11_3'' + (Val 1 / Val 14) * dict_get (self_stoichs s) ''11_4'' + (Val (- 1) / Val 14) * dict_get (self_stoichs s) ''11_8'' + (Val (- 1) / Val 14) * dict_get (self_stoichs s) ''11_9'' + (Val (- 1.5) / Val 31) * dict_get (self_stoichs s) ''11_10''),
     (''11_22'', \<lambda>s. dict_get (self_params s) ''i_TSSBM'' * dict_get (self_stoichs s) ''11_16'')]"

definition stoichs_row_12 :: "string assign list" where
  "stoichs_row_12 = [
     (''12_3'', \<lambda>s. Val (- 1) / (dict_get (self_params s) ''Y_H'' * dict_get (self_params s) ''n_G'')),
     (''12_4'', \<lambda>s. Val 0 - dict_get (self_params s) ''i_NBM''),
     (''12_7'', \<lambda>s. (Val 1 - dict_get (self_params s) ''Y_H'' * dict_get (self_params s) ''n_G'') / ((Val 4 / Val 7) * dict_get (self_params s) ''Y_H'' * dict_get (self_params s) ''n_G'')),
     (''12_8'', \<lambda>s. Val 0 - (Val 1 - dict_get (self_params s) ''Y_H'' * dict_get (self_params s) ''n_G'') / ((Val 4 / Val 7) * dict_get (self_params s) ''Y_H'' * dict_get (self_params s) ''n_G'')),
     (''12_10'', \<lambda>s. Val 0 - dict_get (self_params s) ''i_PBM''),
     (''12_16'', \<lambda>s. Val 1),
     (''12_12'', \<lambda>s. (Val (- 1) / Val 64) * dict_get (self_stoichs s) ''12_3'' + (Val 1 / Val 14) * dict_get (self_stoichs s) ''12_4'' + (Val (- 1) / Val 14) * dict_get (self_stoichs s) ''12_8'' + (Val (- 1.5) / Val 31) * dict_get (self_stoichs s) ''12_10''),
     (''12_22'', \<lambda>s. dict_get (self_params s) ''i_TSSBM'' * dict_get (self_stoichs s) ''12_16'')]"

definition stoichs_row_13 :: "string assign list" where
  "stoichs_row_13 = [
     (''13_3'', \<lambda>s. Val (- 1) / (dict_get (self_params s) ''Y_H'' * dict_get (self_params s) ''n_G'')),
     (''13_4'', \<lambda>s. Val 0 - dict_get (self_params s) ''i_NBM''),
     (''13_6'', \<lambda>s. (Val 1 - dict_get (self_params s) ''Y_H'' * dict_get (self_params s) ''n_G'') / ((Val 4 / Val 7) * dict_get (self_params s) ''Y_H'' * dict_get (self_params s) ''n_G'')),
     (''13_7'', \<lambda>s. Val 0 - (Val 1 - dict_get (self_params s) ''Y_H'' * dict_get (self_params s) ''n_G'') / ((Val 4 / Val 7) * dict_get (self_params s) ''Y_H'' * dict_get (self_params s) ''n_G'')),
     (''13_10'', \<lambda>s. Val 0 - dict_get (self_params s) ''i_PBM''),
     (''13_16'', \<lambda>s. Val 1),
     (''13_12'', \<lambda>s. (Val (- 1) / Val 64) * dict_get (self_stoichs s) ''13_3'' + (Val 1 / Val 14) * dict_get (self_stoichs s) ''13_4'' + (Val (- 1.5) / Val 31) * dict_get (self_stoichs s) ''13_10''),
     (''13_22'', \<lambda>s. dict_get (self_params s) ''i_TSSBM'' * dict_get (self_stoichs s) ''13_16'')]"

definition stoichs_row_14 :: "string assign list" where
  "stoichs_row_14 = [
     (''14_3'', \<lambda>s. Val (- 1) / (dict_get (self_params s) ''Y_H'' * dict_get (self_params s) ''n_G'')),
     (''14_4'', \<lambda>s. Val 0 - dict_get (self_params s) ''i_NBM''),
     (''14_6'', \<lambda>s. Val 0 - (Val 1 - dict_get (self_params s) ''Y_H'' * dict_get (self_params s) ''n_G'') / ((Val 4 / Val 7) * dict_get (self_params s) ''Y_H'' * dict_get (self_params s) ''n_G'')),
     (''14_10'', \<lambda>s. Val 0 - dict_get (self_params s) ''i_PBM''),
     (''14_13'', \<lambda>s. (Val 1 - dict_get (self_params s) ''Y_H'' * dict_get (self_params s) ''n_G'') / ((Val 4 / Val 7) * dict_get (self_params s) ''Y_H'' * dict_get (self_params s) ''n_G'')),
     (''14_16'', \<lambda>s. Val 1),
     (''14_12'', \<lambda>s. (Val (- 1) / Val 64) * dict_get (self_stoichs s) ''14_3'' + (Val 1 / Val 14) * dict_get (self_stoichs s) ''14_4'' + (Val (- 1.5) / Val 31) * dict_get (self_stoichs s) ''14_10''),
     (''14_22'', \<lambda>s. dict_get (self_params s) ''i_TSSBM'' * dict_get (self_stoichs s) ''14_16'')]"

definition stoichs_row_15 :: "string assign list" where
  "stoichs_row_15 = [
     (''15_2'', \<lambda>s. Val (- 1)),
     (''15_3'', \<lambda>s. Val 1),
     (''15_4'', \<lambda>s. dict_get (self_params s) ''i_NSF''),
     (''15_10'', \<lambda>s. dict_get (self_params s) ''i_PSF''),
     (''15_12'', \<lambda>s. (Val (- 1) / Val 64) * dict_get (self_stoichs s) ''15_3'' + (Val 1 / Val 14) * dict_get (self_stoichs s) ''15_4'' + (Val (- 1.5) / Val 31) * dict_get (self_stoichs s) ''15_10'')]"

definition stoichs_row_16 :: "string assign list" where
  "stoichs_row_16 = [
     (''16_4'', \<lambda>s. dict_get (self_params s) ''i_NBM'' - dict_get (self_params s) ''i_NXI'' * dict_get (self_params s) ''f_XI'' - (Val 1 - dict_get (self_params s) ''f_XI'') * dict_get (self_params s) ''i_NXS''),
     (''16_10'', \<lambda>s. dict_get (self_params s) ''i_PBM'' - dict_get (self_params s) ''i_PXI'' * dict_get (self_params s) ''f_XI'' - (Val 1 - dict_get (self_params s) ''f_XI'') * dict_get (self_params s) ''i_PXS''),
     (''16_14'', \<lambda>s. dict_get (self_params s) ''f_XI''),
     (''16_15'', \<lambda>s. Val 1 - dict_get (self_params s) ''f_XI''),
     (''16_16'', \<lambda>s. Val (- 1)),
     (''16_12'', \<lambda>s. (Val 1 / Val 14) * dict_get (self_stoichs s) ''16_4'' + (Val (- 1.5) / Val 31) * dict_get (self_stoichs s) ''16_10''),
     (''16_22'', \<lambda>s. (dict_get (self_params s) ''i_TSSXI'' * dict_get (self_stoichs s) ''16_14'') + dict_get (self_params s) ''i_TSSXS'' * dict_get (self_stoichs s) ''16_15'' + dict_get (self_params s) ''i_TSSBM'' * dict_get (self_stoichs s) ''16_16'')]"

definition stoichs_row_17 :: "string assign list" where
  "stoichs_row_17 = [
     (''17_3'', \<lambda>s. Val (- 1)),
     (''17_10'', \<lambda>s. dict_get (self_params s) ''Y_PO4''),
     (''17_18'', \<lambda>s. Val 0 - dict_get (self_params s) ''Y_PO4''),
     (''17_19'', \<lambda>s. Val 1),
     (''17_12'', \<lambda>s. (Val (- 1) / Val 64) * dict_get (self_stoichs s) ''17_3'' + (Val (- 1.5) / Val 31) * dict_get (self_stoichs s) ''17_10'' + (Val (- 1) / Val 31) * dict_get (self_stoichs s) ''17_18''),
     (''17_22'', \<lambda>s. (Val 3.23 * dict_get (self_stoichs s) ''17_18'') + Val 0.6 * dict_get (self_stoichs s) ''17_19'')]"

definition stoichs_row_18 :: "string assign list" where
  "stoichs_row_18 = [
     (''18_1'', \<lambda>s. Val 0 - dict_get (self_params s) ''Y_PHA''),
     (''18_10'', \<lambda>s. Val (- 1)),
     (''18_18'', \<lambda>s. Val 1),
     (''18_19'', \<lambda>s. Val 0 - dict_get (self_params s) ''Y_PHA''),
     (''18_12'', \<lambda>s. (Val (- 1.5) / Val 31) * dict_get (self_stoichs s) ''18_10'' + (Val (- 1) / Val 31) * dict_get (self_stoichs s) ''18_18''),
     (''18_22'', \<lambda>s. (Val 3.23 * dict_get (self_stoichs s) ''18_18'') + Val 0.6 * dict_get (self_stoichs s) ''18_19'')]"

definition stoichs_row_19 :: "string assign list" where
  "stoichs_row_19 = [
     (''19_8'', \<lambda>s. dict_get (self_params s) ''Y_PHA'' / (Val 8 / Val 7)),
     (''19_9'', \<lambda>s. Val 0 - dict_get (self_params s) ''Y_PHA'' / (Val 8 / Val 7)),
     (''19_10'', \<lambda>s. Val (- 1)),
     (''19_18'', \<lambda>s. Val 1),
     (''19_19'', \<lambda>s. Val 0 - dict_get (self_params s) ''Y_PHA''),
     (''19_12'', \<lambda>s. (Val (- 1) / Val 14) * dict_get (self_stoichs s) ''19_8'' + (Val (- 1) / Val 14) * dict_get (self_stoichs s) ''19_9'' + (Val (- 1.5) / Val 31) * dict_get (self_stoichs s) ''19_10'' + (Val (- 1) / Val 31) * dict_get (self_stoichs s) ''19_18''),
     (''19_22'', \<lambda>s. (Val 3.23 * dict_get (self_stoichs s) ''19_18'') + Val 0.6 * dict_get (self_stoichs s) ''19_19'')]"

definition stoichs_row_20 :: "string assign list" where
  "stoichs_row_20 = [
     (''20_7'', \<lambda>s. dict_get (self_params s) ''Y_PHA'' / (Val 4 / Val 7)),
     (''20_8'', \<lambda>s. Val 0 - dict_get (self_params s) ''Y_PHA'' / (Val 4 / Val 7)),
     (''20_10'', \<lambda>s. Val (- 1)),
     (''20_18'', \<lambda>s. Val 1),
     (''20_19'', \<lambda>s. Val 0 - dict_get (self_params s) ''Y_PHA''),
     (''20_12'', \<lambda>s. (Val (- 1) / Val 14) * dict_get (self_stoichs s) ''20_8'' + (Val (- 1.5) / Val 31) * dict_get (self_stoichs s) ''20_10'' + (Val (- 1) / Val 31) * dict_get (self_stoichs s) ''20_18''),
     (''20_22'', \<lambda>s. (Val 3.23 * dict_get (self_stoichs s) ''20_18'') + Val 0.6 * dict_get (self_stoichs s) ''20_19'')]"

definition stoichs_row_21 :: "string assign list" where
  "stoichs_row_21 = [
     (''21_6'', \<lambda>s. dict_get (self_params s) ''Y_PHA'' / (Val 4 / Val 7)),
     (''21_7'', \<lambda>s. Val 0 - dict_get (self_params s) ''Y_PHA'' / (Val 4 / Val 7)),
     (''21_10'', \<lambda>s. Val (- 1)),
     (''21_18'', \<lambda>s. Val 1),
     (''21_19'', \<lambda>s. Val 0 - dict_get (self_params s) ''Y_PHA''),
     (''21_12'', \<lambda>s. (Val (- 1.5) / Val 31) * dict_get (self_stoichs s) ''21_10'' + (Val (- 1) / Val 31) * dict_get (self_stoichs s) ''21_18''),
     (''21_22'', \<lambda>s. (Val 3.23 * dict_get (self_stoichs s) ''21_18'') + Val 0.6 * dict_get (self_stoichs s) ''21_19'')]"

definition stoichs_row_22 :: "string assign list" where
  "stoichs_row_22 = [
     (''22_6'', \<lambda>s. Val 0 - dict_get (self_params s) ''Y_PHA'' / (Val 4 / Val 7)),
     (''22_10'', \<lambda>s. Val (- 1)),
     (''22_13'', \<lambda>s. dict_get (self_params s) ''Y_PHA'' / (Val 4 / Val 7)),
     (''22_18'', \<lambda>s. Val 1),
     (''22_19'', \<lambda>s. Val 0 - dict_get (self_params s) ''Y_PHA''),
     (''22_12'', \<lambda>s. (Val (- 1.5) / Val 31) * dict_get (self_stoichs s) ''22_10'' + (Val (- 1) / Val 31) * dict_get (self_stoichs s) ''22_18''),
     (''22_22'', \<lambda>s. (Val 3.23 * dict_get (self_stoichs s) ''22_18'') + Val 0.6 * dict_get (self_stoichs s) ''22_19'')]"

definition stoichs_row_23 :: "string assign list" where
  "stoichs_row_23 = [
     (''23_1'', \<lambda>s. Val 1 - Val 1 / dict_get (self_params s) ''Y_PAO''),
     (''23_4'', \<lambda>s. Val 0 - dict_get (self_params s) ''i_NBM''),
     (''23_10'', \<lambda>s. Val 0 - dict_get (self_params s) ''i_PBM''),
     (''23_17'', \<lambda>s. Val 1),
     (''23_19'', \<lambda>s. Val (- 1) / dict_get (self_params s) ''Y_PAO''),
     (''23_12'', \<lambda>s. (Val 1 / Val 14) * dict_get (self_stoichs s) ''23_4'' + (Val (- 1.5) / Val 31) * dict_get (self_stoichs s) ''23_10''),
     (''23_22'', \<lambda>s. (dict_get (self_params s) ''i_TSSBM'' * dict_get (self_stoichs s) ''23_17'') + Val 0.6 * dict_get (self_stoichs s) ''23_19'')]"

definition stoichs_row_24 :: "string assign list" where
  "stoichs_row_24 = [
     (''24_4'', \<lambda>s. Val 0 - dict_get (self_params s) ''i_NBM''),
     (''24_8'', \<lambda>s. (Val 1 - dict_get (self_params s) ''Y_PAO'' * dict_get (self_params s) ''n_G'') / ((Val 8 / Val 7) * dict_get (self_params s) ''Y_PAO'' * dict_get (self_params s) ''n_G'')),
     (''24_9'', \<lambda>s. Val 0 - (Val 1 - dict_get (self_params s) ''Y_PAO'' * dict_get (self_params s) ''n_G'') / ((Val 8 / Val 7) * dict_get (self_params s) ''Y_PAO'' * dict_get (self_params s) ''n_G'')),
     (''24_10'', \<lambda>s. Val 0 - dict_get (self_params s) ''i_PBM''),
     (''24_17'', \<lambda>s. Val 1),
     (''24_19'', \<lambda>s. Val (- 1) / dict_get (self_params s) ''Y_PAO''),
     (''24_12'', \<lambda>s. (Val 1 / Val 14) * dict_get (self_stoichs s) ''24_4'' + (Val (- 1) / Val 14) * dict_get (self_stoichs s) ''24_8'' + (Val (- 1) / Val 14) * dict_get (self_stoichs s) ''24_9'' + (Val (- 1.5) / Val 31) * dict_get (self_stoichs s) ''24_10''),
     (''24_22'', \<lambda>s. (dict_get (self_params s) ''i_TSSBM'' * dict_get (self_stoichs s) ''24_17'') + Val 0.6 * dict_get (self_stoichs s) ''24_19'')]"

definition stoichs_row_25 :: "string assign list" where
  "stoichs_row_25 = [
     (''25_4'', \<lambda>s. Val 0 - dict_get (self_params s) ''i_NBM''),
     (''25_7'', \<lambda>s. (Val 1 - dict_get (self_params s) ''Y_PAO'' * dict_get (self_params s) ''n_G'') / ((Val 4 / Val 7) * dict_get (self_params s) ''Y_PAO'' * dict_get (self_params s) ''n_G'')),
     (''25_8'', \<lambda>s. Val 0 - (Val 1 - dict_get (self_params s) ''Y_PAO'' * dict_get (self_params s) ''n_G'') / ((Val 4 / Val 7) * dict_get (self_params s) ''Y_PAO'' * dict_get (self_params s) ''n_G'')),
     (''25_10'', \<lambda>s. Val 0 - dict_get (self_params s) ''i_PBM''),
     (''25_17'', \<lambda>s. Val 1),
     (''25_19'', \<lambda>s. Val (- 1) / dict_get (self_params s) ''Y_PAO''),
     (''25_12'', \<lambda>s. (Val 1 / Val 14) * dict_get (self_stoichs s) ''25_4'' + (Val (- 1) / Val 14) * dict_get (self_stoichs s) ''25_8'' + (Val (- 1.5) / Val 31) * dict_get (self_stoichs s) ''25_10''),
     (''25_22'', \<lambda>s. (dict_get (self_params s) ''i_TSSBM'' * dict_get (self_stoichs s) ''25_17'') + Val 0.6 * dict_get (self_stoichs s) ''25_19'')]"

definition stoichs_row_26 :: "string assign list" where
  "stoichs_row_26 = [
     (''26_4'', \<lambda>s. Val 0 - dict_get (self_params s) ''i_NBM''),
     (''26_6'', \<lambda>s. (Val 1 - dict_get (self_params s) ''Y_PAO'' * dict_get (self_params s) ''n_G'') / ((Val 4 / Val 7) * dict_get (self_params s) ''Y_PAO'' * dict_get (self_params s) ''n_G'')),
     (''26_7'', \<lambda>s. Val 0 - (Val 1 - dict_get (self_params s) ''Y_PAO'' * dict_get (self_params s) ''n_G'') / ((Val 4 / Val 7) * dict_get (self_params s) ''Y_PAO'' * dict_get (self_params s) ''n_G'')),
     (''26_10'', \<lambda>s. Val 0 - dict_get (self_params s) ''i_PBM''),
     (''26_17'', \<lambda>s. Val 1),
     (''26_19'', \<lambda>s. Val (- 1) / dict_get (self_params s) ''Y_PAO''),
     (''26_12'', \<lambda>s. (Val 1 / Val 14) * dict_get (self_stoichs s) ''26_4'' + (Val (- 1.5) / Val 31) * dict_get (self_stoichs s) ''26_10''),
     (''26_22'', \<lambda>s. (dict_get (self_params s) ''i_TSSBM'' * dict_get (self_stoichs s) ''26_17'') + Val 0.6 * dict_get (self_stoichs s) ''26_19'')]"

definition stoichs_row_27 :: "string assign list" where
  "stoichs_row_27 = [
     (''27_4'', \<lambda>s. Val 0 - dict_get (self_params s) ''i_NBM''),
     (''27_6'', \<lambda>s. Val 0 - (Val 1 - dict_get (self_params s) ''Y_PAO'' * dict_get (self_params s) ''n_G'') / ((Val 4 / Val 7) * dict_get (self_params s) ''Y_PAO'' * dict_get (self_params s) ''n_G'')),
     (''27_10'', \<lambda>s. Val 0 - dict_get (self_params s) ''i_PBM''),
     (''27_13'', \<lambda>s. (Val 1 - dict_get (self_params s) ''Y_PAO'' * dict_get (self_params s) ''n_G'') / ((Val 4 / Val 7) * dict_get (self_params s) ''Y_PAO'' * dict_get (self_params s) ''n_G'')),
     (''27_17'', \<lambda>s. Val 1),
     (''27_19'', \<lambda>s. Val (- 1) / dict_get (self_params s) ''Y_PAO''),
     (''27_12'', \<lambda>s. (Val 1 / Val 14) * dict_get (self_stoichs s) ''27_4'' + (Val (- 1.5) / Val 31) * dict_get (self_stoichs s) ''27_10''),
     (''27_22'', \<lambda>s. (dict_get (self_params s) ''i_TSSBM'' * dict_get (self_stoichs s) ''27_17'') + Val 0.6 * dict_get (self_stoichs s) ''27_19'')]"

definition stoichs_row_28 :: "string assign list" where
  "stoichs_row_28 = [
     (''28_4'', \<lambda>s. dict_get (self_params s) ''i_NBM'' - dict_get (self_params s) ''i_NXI'' * dict_get (self_params s) ''f_XI'' - (Val 1 - dict_get (self_params s) ''f_XI'') * dict_get (self_params s) ''i_NXS''),
     (''28_10'', \<lambda>s. dict_get (self_params s) ''i_PBM'' - dict_get (self_params s) ''i_PXI'' * dict_get (self_params s) ''f_XI'' - (Val 1 - dict_get (self_params s) ''f_XI'') * dict_get (self_params s) ''i_PXS''),
     (''28_14'', \<lambda>s. dict_get (self_params s) ''f_XI''),
     (''28_15'', \<lambda>s. Val 1 - dict_get (self_params s) ''f_XI''),
     (''28_17'', \<lambda>s. Val (- 1)),
     (''28_12'', \<lambda>s. (Val 1 / Val 14) * dict_get (self_stoichs s) ''28_4'' + (Val (- 1.5) / Val 31) * dict_get (self_stoichs s) ''28_10''),
     (''28_22'', \<lambda>s. (dict_get (self_params s) ''i_TSSXI'' * dict_get (self_stoichs s) ''28_14'') + dict_get (self_params s) ''i_TSSXS'' * dict_get (self_stoichs s) ''28_15'' + dict_get (self_params s) ''i_TSSBM'' * dict_get (self_stoichs s) ''28_17'')]"

definition stoichs_row_29 :: "string assign list" where
  "stoichs_row_29 = [
     (''29_10'', \<lambda>s. Val 1),
     (''29_18'', \<lambda>s. Val (- 1)),
     (''29_12'', \<lambda>s. (Val (- 1.5) / Val 31) * dict_get (self_stoichs s) ''29_10'' + (Val (- 1) / Val 31) * dict_get (self_stoichs s) ''29_18''),
     (''29_22'', \<lambda>s. Val 3.23 * dict_get (self_stoichs s) ''29_18'')]"

definition stoichs_row_30 :: "string assign list" where
  "stoichs_row_30 = [
     (''30_3'', \<lambda>s. Val 1),
     (''30_19'', \<lambda>s. Val (- 1)),
     (''30_12'', \<lambda>s. (Val (- 1) / Val 64) * dict_get (self_stoichs s) ''30_3''),
     (''30_22'', \<lambda>s. Val 0.6 * dict_get (self_stoichs s) ''30_19'')]"

definition stoichs_row_31 :: "string assign list" where
  "stoichs_row_31 = [
     (''31_1'', \<lambda>s. Val (- 8) / Val 7),
     (''31_4'', \<lambda>s. Val (- 1)),
     (''31_5'', \<lambda>s. Val 1),
     (''31_12'', \<lambda>s. (Val 1 / Val 14) * dict_get (self_stoichs s) ''31_4'')]"

definition stoichs_row_32 :: "string assign list" where
  "stoichs_row_32 = [
     (''32_1'', \<lambda>s. Val 0 - ((Val 12 / Val 7) - dict_get (self_params s) ''Y_AOB'') / dict_get (self_params s) ''Y_AOB''),
     (''32_4'', \<lambda>s. Val 0 - dict_get (self_params s) ''i_NBM''),
     (''32_5'', \<lambda>s. Val (- 1) / dict_get (self_params s) ''Y_AOB''),
     (''32_7'', \<lambda>s. Val 1 / dict_get (self_params s) ''Y_AOB''),
     (''32_10'', \<lambda>s. Val 0 - dict_get (self_params s) ''i_PBM''),
     (''32_20'', \<lambda>s. Val 1),
     (''32_12'', \<lambda>s. (Val 1 / Val 14) * dict_get (self_stoichs s) ''32_4'' + (Val (- 1.5) / Val 31) * dict_get (self_stoichs s) ''32_10''),
     (''32_22'', \<lambda>s. dict_get (self_params s) ''i_TSSBM'' * dict_get (self_stoichs s) ''32_20'')]"

definition stoichs_row_33 :: "string assign list" where
  "stoichs_row_33 = [
     (''33_1'', \<lambda>s. Val (- 4) / Val 7),
     (''33_7'', \<lambda>s. Val (- 1)),
     (''33_8'', \<lambda>s. Val 1),
     (''33_12'', \<lambda>s. (Val (- 1) / Val 14) * dict_get (self_stoichs s) ''33_8'')]"

definition stoichs_row_34 :: "string assign list" where
  "stoichs_row_34 = [
     (''34_5'', \<lambda>s. Val (- 1)),
     (''34_6'', \<lambda>s. Val 4),
     (''34_7'', \<lambda>s. Val (- 4)),
     (''34_8'', \<lambda>s. Val 1),
     (''34_12'', \<lambda>s. (Val (- 1) / Val 14) * dict_get (self_stoichs s) ''34_8'')]"

definition stoichs_row_35 :: "string assign list" where
  "stoichs_row_35 = [
     (''35_5'', \<lambda>s. Val (- 1)),
     (''35_6'', \<lambda>s. Val 2),
     (''35_8'', \<lambda>s. Val (- 1)),
     (''35_12'', \<lambda>s. (Val (- 1) / Val 14) * dict_get (self_stoichs s) ''35_8'')]"

definition stoichs_row_36 :: "string assign list" where
  "stoichs_row_36 = [
     (''36_1'', \<lambda>s. Val 0 - ((Val 8 / Val 7) - dict_get (self_params s) ''Y_NOB'') / dict_get (self_params s) ''Y_NOB''),
     (''36_4'', \<lambda>s. Val 0 - dict_get (self_params s) ''i_NBM''),
     (''36_8'', \<lambda>s. Val (- 1) / dict_get (self_params s) ''Y_NOB''),
     (''36_9'', \<lambda>s. Val 1 / dict_get (self_params s) ''Y_NOB''),
     (''36_10'', \<lambda>s. Val 0 - dict_get (self_params s) ''i_PBM''),
     (''36_21'', \<lambda>s. Val 1),
     (''36_12'', \<lambda>s. (Val 1 / Val 14) * dict_get (self_stoichs s) ''36_4'' + (Val (- 1) / Val 14) * dict_get (self_stoichs s) ''36_8'' + (Val (- 1) / Val 14) * dict_get (self_stoichs s) ''36_9'' + (Val (- 1.5) / Val 31) * dict_get (self_stoichs s) ''36_10''),
     (''36_22'', \<lambda>s. dict_get (self_params s) ''i_TSSBM'' * dict_get (self_stoichs s) ''36_21'')]"

definition stoichs_row_37 :: "string assign list" where
  "stoichs_row_37 = [
     (''37_4'', \<lambda>s. dict_get (self_params s) ''i_NBM'' - dict_get (self_params s) ''i_NXI'' * dict_get (self_params s) ''f_XI'' - (Val 1 - dict_get (self_params s) ''f_XI'') * dict_get (self_params s) ''i_NXS''),
     (''37_10'', \<lambda>s. dict_get (self_params s) ''i_PBM'' - dict_get (self_params s) ''i_PXI'' * dict_get (self_params s) ''f_XI'' - (Val 1 - dict_get (self_params s) ''f_XI'') * dict_get (self_params s) ''i_PXS''),
     (''37_14'', \<lambda>s. dict_get (self_params s) ''f_XI''),
     (''37_15'', \<lambda>s. Val 1 - dict_get (self_params s) ''f_XI''),
     (''37_20'', \<lambda>s. Val (- 1)),
     (''37_12'', \<lambda>s. (Val 1 / Val 14) * dict_get (self_stoichs s) ''37_4'' + (Val (- 1.5) / Val 31) * dict_get (self_stoichs s) ''37_10''),
     (''37_22'', \<lambda>s. (dict_get (self_params s) ''i_TSSXI'' * dict_get (self_stoichs s) ''37_14'') + dict_get (self_params s) ''i_TSSXS'' * dict_get (self_stoichs s) ''37_15'' + dict_get (self_params s) ''i_TSSBM'' * dict_get (self_stoichs s) ''37_20'')]"

definition stoichs_row_38 :: "string assign list" where
  "stoichs_row_38 = [
     (''38_4'', \<lambda>s. dict_get (self_params s) ''i_NBM'' - dict_get (self_params s) ''i_NXI'' * dict_get (self_params s) ''f_XI'' - (Val 1 - dict_get (self_params s) ''f_XI'') * dict_get (self_params s) ''i_NXS''),
     (''38_10'', \<lambda>s. dict_get (self_params s) ''i_PBM'' - dict_get (self_params s) ''i_PXI'' * dict_get (self_params s) ''f_XI'' - (Val 1 - dict_get (self_params s) ''f_XI'') * dict_get (self_params s) ''i_PXS''),
     (''38_14'', \<lambda>s. dict_get (self_params s) ''f_XI''),
     (''38_15'', \<lambda>s. Val 1 - dict_get (self_params s) ''f_XI''),
     (''38_21'', \<lambda>s. Val (- 1)),
     (''38_12'', \<lambda>s. (Val 1 / Val 14) * dict_get (self_stoichs s) ''38_4'' + (Val (- 1.5) / Val 31) * dict_get (self_stoichs s) ''38_10''),
     (''38_22'', \<lambda>s. (dict_get (self_params s) ''i_TSSXI'' * dict_get (self_stoichs s) ''38_14'') + dict_get (self_params s) ''i_TSSXS'' * dict_get (self_stoichs s) ''38_15'' + dict_get (self_params s) ''i_TSSBM'' * dict_get (self_stoichs s) ''38_21'')]"

definition stoichs_row_39 :: "string assign list" where
  "stoichs_row_39 = [
     (''39_10'', \<lambda>s. Val (- 1)),
     (''39_23'', \<lambda>s. Val (- 3.45)),
     (''39_24'', \<lambda>s. Val 4.87),
     (''39_12'', \<lambda>s. (Val (- 1.5) / Val 31) * dict_get (self_stoichs s) ''39_10''),
     (''39_22'', \<lambda>s. (Val 1 * dict_get (self_stoichs s) ''39_23'') + Val 1 * dict_get (self_stoichs s) ''39_24'')]"

definition stoichs_row_40 :: "string assign list" where
  "stoichs_row_40 = [
     (''40_10'', \<lambda>s. Val 1),
     (''40_23'', \<lambda>s. Val 3.45),
     (''40_24'', \<lambda>s. Val (- 4.87)),
     (''40_12'', \<lambda>s. (Val (- 1.5) / Val 31) * dict_get (self_stoichs s) ''40_10''),
     (''40_22'', \<lambda>s. (Val 1 * dict_get (self_stoichs s) ''40_23'') + Val 1 * dict_get (self_stoichs s) ''40_24'')]"

definition set_stoichs_body :: "string assign list" where
  "set_stoichs_body =
     stoichs_row_1 @ stoichs_row_2 @ stoichs_row_3 @ stoichs_row_4 @ stoichs_row_5 @
     stoichs_row_6 @ stoichs_row_7 @ stoichs_row_8 @ stoichs_row_9 @ stoichs_row_10 @
     stoichs_row_11 @ stoichs_row_12 @ stoichs_row_13 @ stoichs_row_14 @ stoichs_row_15 @
     stoichs_row_16 @ stoichs_row_17 @ stoichs_row_18 @ stoichs_row_19 @ stoichs_row_20 @
     stoichs_row_21 @ stoichs_row_22 @ stoichs_row_23 @ stoichs_row_24 @ stoichs_row_25 @
     stoichs_row_26 @ stoichs_row_27 @ stoichs_row_28 @ stoichs_row_29 @ stoichs_row_30 @
     stoichs_row_31 @ stoichs_row_32 @ stoichs_row_33 @ stoichs_row_34 @ stoichs_row_35 @
     stoichs_row_36 @ stoichs_row_37 @ stoichs_row_38 @ stoichs_row_39 @ stoichs_row_40"

definition set_stoichs :: "state \<Rightarrow> state \<times> py_exception option" where
  "set_stoichs = run stoichs_put set_stoichs_body"

subsection \<open>\<^verbatim>\<open>update\<close> and \<^verbatim>\<open>__init__\<close>\<close>

definition update :: "state \<Rightarrow> real \<Rightarrow> real \<Rightarrow> state \<times> py_exception option" where
  "update s ww_temp DO =
     (let s1 = s\<lparr>self_temperature := ww_temp, self_bulk_DO := DO, self_delta_t := ww_temp - 20\<rparr>
      in case set_params s1 of
           (s2, Some x) \<Rightarrow> (s2, Some x)
         | (s2, None) \<Rightarrow> set_stoichs s2)"

text \<open>
  \<^verbatim>\<open>ASM2d_N2O.__init__\<close> calls the base initialiser without arguments (so with its
  defaults 20 and 2), sets the reference kinetics, calls \<^verbatim>\<open>update\<close>, and only then
  creates the three buffers: 24 components, 52 Monod terms, 40 rates.
\<close>

definition ASM2d_N2O_init :: "state \<Rightarrow> real \<Rightarrow> real \<Rightarrow> state \<times> py_exception option" where
  "ASM2d_N2O_init s ww_temp DO =
     (case set_ideal_kinetics_20C_to_defaults (asm_model_init s 20 2) of
        (s1, Some x) \<Rightarrow> (s1, Some x)
      | (s1, None) \<Rightarrow>
          (case update (s1\<lparr>self_temperature := ww_temp, self_bulk_DO := DO,
                           self_delta_t := ww_temp - 20\<rparr>) ww_temp DO of
             (s2, Some x) \<Rightarrow> (s2, Some x)
           | (s2, None) \<Rightarrow>
               (let (a, s3) = new_list (replicate 24 0) s2;
                    (b, s4) = new_list (replicate 52 1) (s3\<lparr>self_comps := a\<rparr>);
                    (c, s5) = new_list (replicate 40 0) (s4\<lparr>self_monods := b\<rparr>)
                in (s5\<lparr>self_rate_res := c\<rparr>, None))))"

subsection \<open>\<^verbatim>\<open>_reaction_rate\<close>\<close>

text \<open>
  The body in its three parts: the Monod terms 0 to 51 (source lines 643 to 701), the
  two terms added under the comment "Omitted monod terms earlier" (lines 704 and 705),
  and the 40 rates (lines 708 to 751). The local variables \<^verbatim>\<open>temp\<close>, \<^verbatim>\<open>pH\<close>,
  \<^verbatim>\<open>Ka\<close>, \<^verbatim>\<open>S_HNO2\<close> and \<^verbatim>\<open>fSO2\<close> are bound in front of the assignment that
  follows them.
\<close>

definition monod_terms :: "addr \<Rightarrow> nat assign list" where
  "monod_terms comps = [
     (0, \<lambda>s. monod (list_get (store s comps) 0) (dict_get (self_params s) ''K_O2_H'')),
     (1, \<lambda>s. monod (list_get (store s comps) 14 / list_get (store s comps) 15) (dict_get (self_params s) ''K_X_H'')),
     (2, \<lambda>s. monod (dict_get (self_params s) ''K_O2_H'') (list_get (store s comps) 0)),
     (3, \<lambda>s. monod (list_get (store s comps) 8) (dict_get (self_params s) ''K_NO3_H'')),
     (4, \<lambda>s. monod (list_get (store s comps) 7) (dict_get (self_params s) ''K_NO2_H'')),
     (5, \<lambda>s. monod (dict_get (self_params s) ''K_NO2_H'') (list_get (store s comps) 7 + list_get (store s comps) 8)),
     (6, \<lambda>s. monod (list_get (store s comps) 1) (dict_get (self_params s) ''K_F'')),
     (7, \<lambda>s. monod (list_get (store s comps) 1) (list_get (store s comps) 2)),
     (8, \<lambda>s. monod (list_get (store s comps) 0) (dict_get (self_params s) ''K_O2'')),
     (9, \<lambda>s. monod (list_get (store s comps) 3) (dict_get (self_params s) ''K_NH4'')),
     (10, \<lambda>s. monod (list_get (store s comps) 9) (dict_get (self_params s) ''K_P'')),
     (11, \<lambda>s. monod (list_get (store s comps) 11) (dict_get (self_params s) ''K_ALK'')),
     (12, \<lambda>s. monod (list_get (store s comps) 2) (dict_get (self_params s) ''K_A'')),
     (13, \<lambda>s. monod (list_get (store s comps) 2) (list_get (store s comps) 1)),
     (14, \<lambda>s. monod (dict_get (self_params s) ''K_O2'') (list_get (store s comps) 0)),
     (15, \<lambda>s. monod (list_get (store s comps) 1) (dict_get (self_params s) ''K_S3'')),
     (16, \<lambda>s. monod (list_get (store s comps) 7) (dict_get (self_params s) ''K_NO2_Den'')),
     (17, \<lambda>s. monod (dict_get (self_params s) ''K_OH3'') (list_get (store s comps) 0)),
     (18, \<lambda>s. monod (list_get (store s comps) 1) (dict_get (self_params s) ''K_S4'')),
     (19, \<lambda>s. monod (list_get (store s comps) 6) (dict_get (self_params s) ''K_NO_Den'' + py_pow (list_get (store s comps) 6) (Val 2) / dict_get (self_params s) ''K_I4NO'')),
     (20, \<lambda>s. monod (dict_get (self_params s) ''K_OH4'') (list_get (store s comps) 0)),
     (21, \<lambda>s. monod (list_get (store s comps) 1) (dict_get (self_params s) ''K_S5'')),
     (22, \<lambda>s. monod (list_get (store s comps) 5) (dict_get (self_params s) ''K_N2O_Den'')),
     (23, \<lambda>s. monod (dict_get (self_params s) ''K_OH5'') (list_get (store s comps) 0)),
     (24, \<lambda>s. monod (list_get (store s comps) 2) (dict_get (self_params s) ''K_S3'')),
     (25, \<lambda>s. monod (list_get (store s comps) 2) (dict_get (self_params s) ''K_S4'')),
     (26, \<lambda>s. monod (list_get (store s comps) 2) (dict_get (self_params s) ''K_S5'')),
     (27, \<lambda>s. monod (dict_get (self_params s) ''K_NO2'') (list_get (store s comps) 7 + list_get (store s comps) 8)),
     (28, \<lambda>s. monod (list_get (store s comps) 1) (dict_get (self_params s) ''K_fe_H'')),
     (29, \<lambda>s. monod (list_get (store s comps) 2) (dict_get (self_params s) ''K_A_P'')),
     (30, \<lambda>s. monod (list_get (store s comps) 11) (dict_get (self_params s) ''K_ALK_P'')),
     (31, \<lambda>s. monod (list_get (store s comps) 17 / list_get (store s comps) 16) (dict_get (self_params s) ''K_PP_P'')),
     (32, \<lambda>s. monod (list_get (store s comps) 0) (dict_get (self_params s) ''K_O2_P'')),
     (33, \<lambda>s. monod (list_get (store s comps) 9) (dict_get (self_params s) ''K_P_P'')),
     (34, \<lambda>s. monod (list_get (store s comps) 18 / list_get (store s comps) 16) (dict_get (self_params s) ''K_PHA_P'')),
     (35, \<lambda>s. monod (dict_get (self_params s) ''K_MAX_P'' - list_get (store s comps) 17 / list_get (store s comps) 16) (dict_get (self_params s) ''K_IPP_P'')),
     (36, \<lambda>s. monod (list_get (store s comps) 8) (dict_get (self_params s) ''K_NO3_P'')),
     (37, \<lambda>s. monod (dict_get (self_params s) ''K_O2_P'') (list_get (store s comps) 0)),
     (38, \<lambda>s. monod (list_get (store s comps) 0) (dict_get (self_params s) ''K_O2_AOB1'')),
     (39, \<lambda>s. monod (list_get (store s comps) 3) (dict_get (self_params s) ''K_NH4_AOB'')),
     (40, \<lambda>s. monod (list_get (store s comps) 0) (dict_get (self_params s) ''K_O2_AOB2'')),
     (41, \<lambda>s. monod (list_get (store s comps) 4) (dict_get (self_params s) ''K_NH2OH_AOB'')),
     (42, \<lambda>s. monod (list_get (store s comps) 9) (dict_get (self_params s) ''K_P_AOB'')),
     (43, \<lambda>s. monod (list_get (store s comps) 11) (dict_get (self_params s) ''K_ALK_AOB'')),
     (44, \<lambda>s. monod (list_get (store s comps) 6) (dict_get (self_params s) ''K_NO_AOB_HAO'')),
     (45, \<lambda>s. monod (list_get (store s comps) 6) (dict_get (self_params s) ''K_NO_AOB_NN'')),
     (46, \<lambda>s. pybind (Val 20) (\<lambda>temp. pybind (Val 7) (\<lambda>pH. pybind (py_exp (Val (- 2300) / (Val 273.15 + Val temp))) (\<lambda>Ka. pybind ((list_get (store s comps) 7 / ((Val Ka * py_pow (Val 10) (Val pH)) + Val 1)) * (Val 47 / Val 14)) (\<lambda>S_HNO2. monod (Val S_HNO2) (dict_get (self_params s) ''K_HNO2_AOB'')))))),
     (47, \<lambda>s. monod (list_get (store s comps) 0) (dict_get (self_params s) ''K_O2_NOB'')),
     (48, \<lambda>s. monod (list_get (store s comps) 7) (dict_get (self_params s) ''K_NO2_NOB'')),
     (49, \<lambda>s. monod (list_get (store s comps) 9) (dict_get (self_params s) ''K_P_NOB'')),
     (50, \<lambda>s. monod (list_get (store s comps) 11) (dict_get (self_params s) ''K_ALK_NOB'')),
     (51, \<lambda>s. monod (list_get (store s comps) 11) (dict_get (self_params s) ''K_ALK_PR''))]"

definition omitted_monod_terms :: "addr \<Rightarrow> nat assign list" where
  "omitted_monod_terms comps = [
     (52, \<lambda>s. monod (list_get (store s comps) 8) (dict_get (self_params s) ''K_NO3'')),
     (53, \<lambda>s. monod (list_get (store s comps) 3) (Val (10 / 10 ^ 12)))]"

definition rate_expressions :: "addr \<Rightarrow> nat assign list" where
  "rate_expressions comps = [
     (0, \<lambda>s. dict_get (self_params s) ''K_H'' * list_get (store s (self_monods s)) 0 * list_get (store s (self_monods s)) 1 * list_get (store s comps) 15),
     (1, \<lambda>s. dict_get (self_params s) ''K_H'' * dict_get (self_params s) ''n_NO3_H'' * list_get (store s (self_monods s)) 2 * list_get (store s (self_monods s)) 3 * list_get (store s (self_monods s)) 1 * list_get (store s comps) 15),
     (2, \<lambda>s. dict_get (self_params s) ''K_H'' * dict_get (self_params s) ''n_NO2_H'' * list_get (store s (self_monods s)) 2 * list_get (store s (self_monods s)) 4 * list_get (store s (self_monods s)) 1 * list_get (store s comps) 15),
     (3, \<lambda>s. dict_get (self_params s) ''K_H'' * dict_get (self_params s) ''n_fe_H'' * list_get (store s (self_monods s)) 2 * list_get (store s (self_monods s)) 5 * list_get (store s (self_monods s)) 1 * list_get (store s comps) 15),
     (4, \<lambda>s. dict_get (self_params s) ''mu_H'' * list_get (store s (self_monods s)) 6 * list_get (store s (self_monods s)) 7 * list_get (store s (self_monods s)) 8 * list_get (store s (self_monods s)) 9 * list_get (store s (self_monods s)) 10 * list_get (store s (self_monods s)) 11 * list_get (store s comps) 15),
     (5, \<lambda>s. dict_get (self_params s) ''mu_H'' * list_get (store s (self_monods s)) 12 * list_get (store s (self_monods s)) 13 * list_get (store s (self_monods s)) 8 * list_get (store s (self_monods s)) 9 * list_get (store s (self_monods s)) 10 * list_get (store s (self_monods s)) 11 * list_get (store s comps) 15),
     (6, \<lambda>s. dict_get (self_params s) ''mu_H'' * dict_get (self_params s) ''n_NO3_D'' * list_get (store s (self_monods s)) 6 * list_get (store s (self_monods s)) 7 * list_get (store s (self_monods s)) 14 * list_get (store s (self_monods s)) 52 * list_get (store s (self_monods s)) 9 * list_get (store s (self_monods s)) 10 * list_get (store s (self_monods s)) 11 * list_get (store s comps) 15),
     (7, \<lambda>s. dict_get (self_params s) ''mu_H'' * dict_get (self_params s) ''n_G3'' * list_get (store s (self_monods s)) 15 * list_get (store s (self_monods s)) 7 * list_get (store s (self_monods s)) 16 * list_get (store s (self_monods s)) 17 * list_get (store s (self_monods s)) 9 * list_get (store s (self_monods s)) 10 * list_get (store s (self_monods s)) 11 * list_get (store s comps) 15),
     (8, \<lambda>s. dict_get (self_params s) ''mu_H'' * dict_get (self_params s) ''n_G4'' * list_get (store s (self_monods s)) 18 * list_get (store s (self_monods s)) 7 * list_get (store s (self_monods s)) 19 * list_get (store s (self_monods s)) 20 * list_get (store s (self_monods s)) 9 * list_get (store s (self_monods s)) 10 * list_get (store s (self_monods s)) 11 * list_get (store s comps) 15),
     (9, \<lambda>s. dict_get (self_params s) ''mu_H'' * dict_get (self_params s) ''n_G5'' * list_get (store s (self_monods s)) 21 * list_get (store s (self_monods s)) 7 * list_get (store s (self_monods s)) 22 * list_get (store s (self_monods s)) 23 * list_get (store s (self_monods s)) 9 * list_get (store s (self_monods s)) 10 * list_get (store s (self_monods s)) 11 * list_get (store s comps) 15),
     (10, \<lambda>s. dict_get (self_params s) ''mu_H'' * dict_get (self_params s) ''n_NO3_D'' * list_get (store s (self_monods s)) 12 * list_get (store s (self_monods s)) 13 * list_get (store s (self_monods s)) 14 * list_get (store s (self_monods s)) 52 * list_get (store s (self_monods s)) 9 * list_get (store s (self_monods s)) 10 * list_get (store s (self_monods s)) 11 * list_get (store s comps) 15),
     (11, \<lambda>s. dict_get (self_params s) ''mu_H'' * dict_get (self_params s) ''n_G3'' * list_get (store s (self_monods s)) 24 * list_get (store s (self_monods s)) 13 * list_get (store s (self_monods s)) 16 * list_get (store s (self_monods s)) 17 * list_get (store s (self_monods s)) 9 * list_get (store s (self_monods s)) 10 * list_get (store s (self_monods s)) 11 * list_get (store s comps) 15),
     (12, \<lambda>s. dict_get (self_params s) ''mu_H'' * dict_get (self_params s) ''n_G4'' * list_get (store s (self_monods s)) 25 * list_get (store s (self_monods s)) 13 * list_get (store s (self_monods s)) 19 * list_get (store s (self_monods s)) 20 * list_get (store s (self_monods s)) 9 * list_get (store s (self_monods s)) 10 * list_get (store s (self_monods s)) 11 * list_get (store s comps) 15),
     (13, \<lambda>s. dict_get (self_params s) ''mu_H'' * dict_get (self_params s) ''n_G5'' * list_get (store s (self_monods s)) 26 * list_get (store s (self_monods s)) 13 * list_get (store s (self_monods s)) 22 * list_get (store s (self_monods s)) 23 * list_get (store s (self_monods s)) 9 * list_get (store s (self_monods s)) 10 * list_get (store s (self_monods s)) 11 * list_get (store s comps) 15),
     (14, \<lambda>s. dict_get (self_params s) ''q_fe'' * list_get (store s (self_monods s)) 14 * list_get (store s (self_monods s)) 27 * method_subscript (Val 28) * list_get (store s (self_monods s)) 11 * list_get (store s comps) 15),
     (15, \<lambda>s. dict_get (self_params s) ''b_H'' * list_get (store s comps) 15),
     (16, \<lambda>s. dict_get (self_params s) ''q_PHA'' * list_get (store s (self_monods s)) 29 * list_get (store s (self_monods s)) 30 * list_get (store s (self_monods s)) 31 * list_get (store s comps) 16),
     (17, \<lambda>s. dict_get (self_params s) ''q_PP'' * list_get (store s (self_monods s)) 32 * list_get (store s (self_monods s)) 33 * list_get (store s (self_monods s)) 30 * list_get (store s (self_monods s)) 34 * list_get (store s (self_monods s)) 35 * list_get (store s comps) 16),
     (18, \<lambda>s. dict_get (self_params s) ''q_PP'' * dict_get (self_params s) ''n_NO3_P'' * list_get (store s (self_monods s)) 36 * list_get (store s (self_monods s)) 37 * list_get (store s (self_monods s)) 33 * list_get (store s (self_monods s)) 30 * list_get (store s (self_monods s)) 34 * list_get (store s (self_monods s)) 35 * list_get (store s comps) 16),
     (19, \<lambda>s. dict_get (self_params s) ''q_PP'' * dict_get (self_params s) ''n_G3'' * list_get (store s (self_monods s)) 16 * list_get (store s (self_monods s)) 17 * list_get (store s (self_monods s)) 33 * list_get (store s (self_monods s)) 30 * list_get (store s (self_monods s)) 34 * list_get (store s (self_monods s)) 35 * list_get (store s comps) 16),
     (20, \<lambda>s. dict_get (self_params s) ''q_PP'' * dict_get (self_params s) ''n_G4'' * list_get (store s (self_monods s)) 19 * list_get (store s (self_monods s)) 20 * list_get (store s (self_monods s)) 33 * list_get (store s (self_monods s)) 30 * list_get (store s (self_monods s)) 34 * list_get (store s (self_monods s)) 35 * list_get (store s comps) 16),
     (21, \<lambda>s. dict_get (self_params s) ''q_PP'' * dict_get (self_params s) ''n_G5'' * list_get (store s (self_monods s)) 22 * list_get (store s (self_monods s)) 23 * list_get (store s (self_monods s)) 33 * list_get (store s (self_monods s)) 30 * list_get (store s (self_monods s)) 34 * list_get (store s (self_monods s)) 35 * list_get (store s comps) 16),
     (22, \<lambda>s. dict_get (self_params s) ''mu_PAO'' * list_get (store s (self_monods s)) 32 * list_get (store s (self_monods s)) 33 * list_get (store s (self_monods s)) 9 * list_get (store s (self_monods s)) 30 * list_get (store s (self_monods s)) 34 * list_get (store s comps) 16),
     (23, \<lambda>s. dict_get (self_params s) ''mu_PAO'' * dict_get (self_params s) ''n_NO3_P'' * list_get (store s (self_monods s)) 36 * list_get (store s (self_monods s)) 37 * list_get (store s (self_monods s)) 33 * list_get (store s (self_monods s)) 9 * list_get (store s (self_monods s)) 30 * list_get (store s (self_monods s)) 34 * list_get (store s comps) 16),
     (24, \<lambda>s. dict_get (self_params s) ''mu_PAO'' * dict_get (self_params s) ''n_G3'' * list_get (store s (self_monods s)) 16 * list_get (store s (self_monods s)) 17 * list_get (store s (self_monods s)) 33 * list_get (store s (self_monods s)) 9 * list_get (store s (self_monods s)) 30 * list_get (store s (self_monods s)) 34 * list_get (store s comps) 16),
     (25, \<lambda>s. dict_get (self_params s) ''mu_PAO'' * dict_get (self_params s) ''n_G4'' * list_get (store s (self_monods s)) 19 * list_get (store s (self_monods s)) 20 * list_get (store s (self_monods s)) 33 * list_get (store s (self_monods s)) 9 * list_get (store s (self_monods s)) 30 * list_get (store s (self_monods s)) 34 * list_get (store s comps) 16),
     (26, \<lambda>s. dict_get (self_params s) ''mu_PAO'' * dict_get (self_params s) ''n_G5'' * list_get (store s (self_monods s)) 22 * list_get (store s (self_monods s)) 23 * list_get (store s (self_monods s)) 33 * list_get (store s (self_monods s)) 9 * list_get (store s (self_monods s)) 30 * list_get (store s (self_monods s)) 34 * list_get (store s comps) 16),
     (27, \<lambda>s. dict_get (self_params s) ''b_PAO'' * list_get (store s (self_monods s)) 30 * list_get (store s comps) 16),
     (28, \<lambda>s. dict_get (self_params s) ''b_PP'' * list_get (store s (self_monods s)) 30 * list_get (store s comps) 17),
     (29, \<lambda>s. dict_get (self_params s) ''b_PHA'' * list_get (store s (self_monods s)) 30 * list_get (store s comps) 18),
     (30, \<lambda>s. dict_get (self_params s) ''q_AOB_AMO'' * list_get (store s (self_monods s)) 38 * list_get (store s (self_monods s)) 39 * list_get (store s comps) 19),
     (31, \<lambda>s. dict_get (self_params s) ''mu_AOB_HAO'' * list_get (store s (self_monods s)) 40 * list_get (store s (self_monods s)) 41 * list_get (store s (self_monods s)) 53 * list_get (store s (self_monods s)) 42 * list_get (store s (self_monods s)) 43 * list_get (store s comps) 19),
     (32, \<lambda>s. dict_get (self_params s) ''q_AOB_HAO'' * list_get (store s (self_monods s)) 40 * list_get (store s (self_monods s)) 44 * list_get (store s comps) 19),
     (33, \<lambda>s. dict_get (self_params s) ''q_AOB_N2O_NN'' * list_get (store s (self_monods s)) 41 * list_get (store s (self_monods s)) 45 * list_get (store s comps) 19),
     (34, \<lambda>s. pybind (list_get (store s comps) 0 / (dict_get (self_params s) ''K_O2_AOB_ND'' + (Val 1 - Val 2 * py_pow (dict_get (self_params s) ''K_O2_AOB_ND'' / dict_get (self_params s) ''K_I_O2_AOB'') (Val 1 / Val 2)) * list_get (store s comps) 0 + py_pow (list_get (store s comps) 0) (Val 2) / dict_get (self_params s) ''K_I_O2_AOB'')) (\<lambda>fSO2. dict_get (self_params s) ''q_AOB_N2O_ND'' * list_get (store s (self_monods s)) 41 * list_get (store s (self_monods s)) 46 * Val fSO2 * list_get (store s comps) 19)),
     (35, \<lambda>s. dict_get (self_params s) ''mu_NOB'' * list_get (store s (self_monods s)) 47 * list_get (store s (self_monods s)) 48 * list_get (store s (self_monods s)) 49 * list_get (store s (self_monods s)) 50 * list_get (store s comps) 20),
     (36, \<lambda>s. dict_get (self_params s) ''b_AOB'' * list_get (store s comps) 19),
     (37, \<lambda>s. dict_get (self_params s) ''b_NOB'' * list_get (store s comps) 20),
     (38, \<lambda>s. dict_get (self_params s) ''k_PRE'' * list_get (store s comps) 9 * list_get (store s comps) 22),
     (39, \<lambda>s. dict_get (self_params s) ''k_RED'' * list_get (store s (self_monods s)) 51 * list_get (store s comps) 23)]"

text \<open>The method returns the list \<^verbatim>\<open>self._rate_res\<close> itself, not a copy.\<close>

definition reaction_rate :: "state \<Rightarrow> addr \<Rightarrow> state \<times> (py_exception + addr)" where
  "reaction_rate s comps =
     (case run monods_put (monod_terms comps @ omitted_monod_terms comps) s of
        (s1, Some x) \<Rightarrow> (s1, Inl x)
      | (s1, None) \<Rightarrow>
          (case run rate_res_put (rate_expressions comps) s1 of
             (s2, Some x) \<Rightarrow> (s2, Inl x)
           | (s2, None) \<Rightarrow> (s2, Inr (self_rate_res s2))))"

subsection \<open>Overall process rates of the 24 components\<close>

definition rate0_S_O2 :: "state \<Rightarrow> pyval" where
  "rate0_S_O2 s =
     dict_get (self_stoichs s) ''5_1'' * list_get (store s (self_rate_res s)) 4
     + dict_get (self_stoichs s) ''6_1'' * list_get (store s (self_rate_res s)) 5
     + dict_get (self_stoichs s) ''18_1'' * list_get (store s (self_rate_res s)) 17
     + dict_get (self_stoichs s) ''23_1'' * list_get (store s (self_rate_res s)) 22
     + dict_get (self_stoichs s) ''31_1'' * list_get (store s (self_rate_res s)) 30
     + dict_get (self_stoichs s) ''32_1'' * list_get (store s (self_rate_res s)) 31
     + dict_get (self_stoichs s) ''33_1'' * list_get (store s (self_rate_res s)) 32
     + dict_get (self_stoichs s) ''36_1'' * list_get (store s (self_rate_res s)) 35"

definition rate1_S_F :: "state \<Rightarrow> pyval" where
  "rate1_S_F s =
     dict_get (self_stoichs s) ''1_2'' * list_get (store s (self_rate_res s)) 0
     + dict_get (self_stoichs s) ''2_2'' * list_get (store s (self_rate_res s)) 1
     + dict_get (self_stoichs s) ''3_2'' * list_get (store s (self_rate_res s)) 2
     + dict_get (self_stoichs s) ''4_2'' * list_get (store s (self_rate_res s)) 3
     + dict_get (self_stoichs s) ''5_2'' * list_get (store s (self_rate_res s)) 4
     + dict_get (self_stoichs s) ''7_2'' * list_get (store s (self_rate_res s)) 6
     + dict_get (self_stoichs s) ''8_2'' * list_get (store s (self_rate_res s)) 7
     + dict_get (self_stoichs s) ''9_2'' * list_get (store s (self_rate_res s)) 8
     + dict_get (self_stoichs s) ''10_2'' * list_get (store s (self_rate_res s)) 9
     + dict_get (self_stoichs s) ''15_2'' * list_get (store s (self_rate_res s)) 14"

definition rate2_S_A :: "state \<Rightarrow> pyval" where
  "rate2_S_A s =
     dict_get (self_stoichs s) ''6_3'' * list_get (store s (self_rate_res s)) 5
     + dict_get (self_stoichs s) ''11_3'' * list_get (store s (self_rate_res s)) 10
     + dict_get (self_stoichs s) ''12_3'' * list_get (store s (self_rate_res s)) 11
     + dict_get (self_stoichs s) ''13_3'' * list_get (store s (self_rate_res s)) 12
     + dict_get (self_stoichs s) ''14_3'' * list_get (store s (self_rate_res s)) 13
     + dict_get (self_stoichs s) ''15_3'' * list_get (store s (self_rate_res s)) 14
     + dict_get (self_stoichs s) ''17_3'' * list_get (store s (self_rate_res s)) 16
     + dict_get (self_stoichs s) ''30_3'' * list_get (store s (self_rate_res s)) 29"

definition rate3_S_NH4 :: "state \<Rightarrow> pyval" where
  "rate3_S_NH4 s =
     dict_get (self_stoichs s) ''1_4'' * list_get (store s (self_rate_res s)) 0
     + dict_get (self_stoichs s) ''2_4'' * list_get (store s (self_rate_res s)) 1
     + dict_get (self_stoichs s) ''3_4'' * list_get (store s (self_rate_res s)) 2
     + dict_get (self_stoichs s) ''4_4'' * list_get (store s (self_rate_res s)) 3
     + dict_get (self_stoichs s) ''5_4'' * list_get (store s (self_rate_res s)) 4
     + dict_get (self_stoichs s) ''6_4'' * list_get (store s (self_rate_res s)) 5
     + dict_get (self_stoichs s) ''7_4'' * list_get (store s (self_rate_res s)) 6
     + dict_get (self_stoichs s) ''8_4'' * list_get (store s (self_rate_res s)) 7
     + dict_get (self_stoichs s) ''9_4'' * list_get (store s (self_rate_res s)) 8
     + dict_get (self_stoichs s) ''10_4'' * list_get (store s (self_rate_res s)) 9
     + dict_get (self_stoichs s) ''11_4'' * list_get (store s (self_rate_res s)) 10
     + dict_get (self_stoichs s) ''12_4'' * list_get (store s (self_rate_res s)) 11
     + dict_get (self_stoichs s) ''13_4'' * list_get (store s (self_rate_res s)) 12
     + dict_get (self_stoichs s) ''14_4'' * list_get (store s (self_rate_res s)) 13
     + dict_get (self_stoichs s) ''15_4'' * list_get (store s (self_rate_res s)) 14
     + dict_get (self_stoichs s) ''16_4'' * list_get (store s (self_rate_res s)) 15
     + dict_get (self_stoichs s) ''23_4'' * list_get (store s (self_rate_res s)) 22
     + dict_get (self_stoichs s) ''24_4'' * list_get (store s (self_rate_res s)) 23
     + dict_get (self_stoichs s) ''25_4'' * list_get (store s (self_rate_res s)) 24
     + dict_get (self_stoichs s) ''26_4'' * list_get (store s (self_rate_res s)) 25
     + dict_get (self_stoichs s) ''27_4'' * list_get (store s (self_rate_res s)) 26
     + dict_get (self_stoichs s) ''28_4'' * list_get (store s (self_rate_res s)) 27
     + dict_get (self_stoichs s) ''31_4'' * list_get (store s (self_rate_res s)) 30
     + dict_get (self_stoichs s) ''32_4'' * list_get (store s (self_rate_res s)) 31
     + dict_get (self_stoichs s) ''36_4'' * list_get (store s (self_rate_res s)) 35
     + dict_get (self_stoichs s) ''37_4'' * list_get (store s (self_rate_res s)) 36
     + dict_get (self_stoichs s) ''38_4'' * list_get (store s (self_rate_res s)) 37"

definition rate4_S_NH2OH :: "state \<Rightarrow> pyval" where
  "rate4_S_NH2OH s =
     dict_get (self_stoichs s) ''31_5'' * list_get (store s (self_rate_res s)) 30
     + dict_get (self_stoichs s) ''32_5'' * list_get (store s (self_rate_res s)) 31
     + dict_get (self_stoichs s) ''34_5'' * list_get (store s (self_rate_res s)) 33
     + dict_get (self_stoichs s) ''35_5'' * list_get (store s (self_rate_res s)) 34"

definition rate5_S_N2O :: "state \<Rightarrow> pyval" where
  "rate5_S_N2O s =
     dict_get (self_stoichs s) ''9_6'' * list_get (store s (self_rate_res s)) 8
     + dict_get (self_stoichs s) ''10_6'' * list_get (store s (self_rate_res s)) 9
     + dict_get (self_stoichs s) ''13_6'' * list_get (store s (self_rate_res s)) 12
     + dict_get (self_stoichs s) ''14_6'' * list_get (store s (self_rate_res s)) 13
     + dict_get (self_stoichs s) ''21_6'' * list_get (store s (self_rate_res s)) 20
     + dict_get (self_stoichs s) ''22_6'' * list_get (store s (self_rate_res s)) 21
     + dict_get (self_stoichs s) ''26_6'' * list_get (store s (self_rate_res s)) 25
     + dict_get (self_stoichs s) ''27_6'' * list_get (store s (self_rate_res s)) 26
     + dict_get (self_stoichs s) ''34_6'' * list_get (store s (self_rate_res s)) 33
     + dict_get (self_stoichs s) ''35_6'' * list_get (store s (self_rate_res s)) 34"

definition rate6_S_NO :: "state \<Rightarrow> pyval" where
  "rate6_S_NO s =
     dict_get (self_stoichs s) ''8_7'' * list_get (store s (self_rate_res s)) 7
     + dict_get (self_stoichs s) ''9_7'' * list_get (store s (self_rate_res s)) 8
     + dict_get (self_stoichs s) ''12_7'' * list_get (store s (self_rate_res s)) 11
     + dict_get (self_stoichs s) ''13_7'' * list_get (store s (self_rate_res s)) 12
     + dict_get (self_stoichs s) ''20_7'' * list_get (store s (self_rate_res s)) 19
     + dict_get (self_stoichs s) ''21_7'' * list_get (store s (self_rate_res s)) 20
     + dict_get (self_stoichs s) ''25_7'' * list_get (store s (self_rate_res s)) 24
     + dict_get (self_stoichs s) ''26_7'' * list_get (store s (self_rate_res s)) 25
     + dict_get (self_stoichs s) ''32_7'' * list_get (store s (self_rate_res s)) 31
     + dict_get (self_stoichs s) ''33_7'' * list_get (store s (self_rate_res s)) 32
     + dict_get (self_stoichs s) ''34_7'' * list_get (store s (self_rate_res s)) 33"

definition rate7_S_NO2 :: "state \<Rightarrow> pyval" where
  "rate7_S_NO2 s =
     dict_get (self_stoichs s) ''7_8'' * list_get (store s (self_rate_res s)) 6
     + dict_get (self_stoichs s) ''8_8'' * list_get (store s (self_rate_res s)) 7
     + dict_get (self_stoichs s) ''11_8'' * list_get (store s (self_rate_res s)) 10
     + dict_get (self_stoichs s) ''12_8'' * list_get (store s (self_rate_res s)) 11
     + dict_get (self_stoichs s) ''19_8'' * list_get (store s (self_rate_res s)) 18
     + dict_get (self_stoichs s) ''20_8'' * list_get (store s (self_rate_res s)) 19
     + dict_get (self_stoichs s) ''24_8'' * list_get (store s (self_rate_res s)) 23
     + dict_get (self_stoichs s) ''25_8'' * list_get (store s (self_rate_res s)) 24
     + dict_get (self_stoichs s) ''33_8'' * list_get (store s (self_rate_res s)) 32
     + dict_get (self_stoichs s) ''34_8'' * list_get (store s (self_rate_res s)) 33
     + dict_get (self_stoichs s) ''35_8'' * list_get (store s (self_rate_res s)) 34
     + dict_get (self_stoichs s) ''36_8'' * list_get (store s (self_rate_res s)) 35"

definition rate8_S_NO3 :: "state \<Rightarrow> pyval" where
  "rate8_S_NO3 s =
     dict_get (self_stoichs s) ''7_9'' * list_get (store s (self_rate_res s)) 6
     + dict_get (self_stoichs s) ''11_9'' * list_get (store s (self_rate_res s)) 10
     + dict_get (self_stoichs s) ''19_9'' * list_get (store s (self_rate_res s)) 18
     + dict_get (self_stoichs s) ''24_9'' * list_get (store s (self_rate_res s)) 23
     + dict_get (self_stoichs s) ''36_9'' * list_get (store s (self_rate_res s)) 35"

definition rate9_S_PO4 :: "state \<Rightarrow> pyval" where
  "rate9_S_PO4 s =
     dict_get (self_stoichs s) ''1_10'' * list_get (store s (self_rate_res s)) 0
     + dict_get (self_stoichs s) ''2_10'' * list_get (store s (self_rate_res s)) 1
     + dict_get (self_stoichs s) ''3_10'' * list_get (store s (self_rate_res s)) 2
     + dict_get (self_stoichs s) ''4_10'' * list_get (store s (self_rate_res s)) 3
     + dict_get (self_stoichs s) ''5_10'' * list_get (store s (self_rate_res s)) 4
     + dict_get (self_stoichs s) ''6_10'' * list_get (store s (self_rate_res s)) 5
     + dict_get (self_stoichs s) ''7_10'' * list_get (store s (self_rate_res s)) 6
     + dict_get (self_stoichs s) ''8_10'' * list_get (store s (self_rate_res s)) 7
     + dict_get (self_stoichs s) ''9_10'' * list_get (store s (self_rate_res s)) 8
     + dict_get (self_stoichs s) ''10_10'' * list_get (store s (self_rate_res s)) 9
     + dict_get (self_stoichs s) ''11_10'' * list_get (store s (self_rate_res s)) 10
     + dict_get (self_stoichs s) ''12_10'' * list_get (store s (self_rate_res s)) 11
     + dict_get (self_stoichs s) ''13_10'' * list_get (store s (self_rate_res s)) 12
     + dict_get (self_stoichs s) ''14_10'' * list_get (store s (self_rate_res s)) 13
     + dict_get (self_stoichs s) ''15_10'' * list_get (store s (self_rate_res s)) 14
     + dict_get (self_stoichs s) ''16_10'' * list_get (store s (self_rate_res s)) 15
     + dict_get (self_stoichs s) ''17_10'' * list_get (store s (self_rate_res s)) 16
     + dict_get (self_stoichs s) ''18_10'' * list_get (store s (self_rate_res s)) 17
     + dict_get (self_stoichs s) ''19_10'' * list_get (store s (self_rate_res s)) 18
     + dict_get (self_stoichs s) ''20_10'' * list_get (store s (self_rate_res s)) 19
     + dict_get (self_stoichs s) ''21_10'' * list_get (store s (self_rate_res s)) 20
     + dict_get (self_stoichs s) ''22_10'' * list_get (store s (self_rate_res s)) 21
     + dict_get (self_stoichs s) ''23_10'' * list_get (store s (self_rate_res s)) 22
     + dict_get (self_stoichs s) ''24_10'' * list_get (store s (self_rate_res s)) 23
     + dict_get (self_stoichs s) ''25_10'' * list_get (store s (self_rate_res s)) 24
     + dict_get (self_stoichs s) ''26_10'' * list_get (store s (self_rate_res s)) 25
     + dict_get (self_stoichs s) ''27_10'' * list_get (store s (self_rate_res s)) 26
     + dict_get (self_stoichs s) ''28_10'' * list_get (store s (self_rate_res s)) 27
     + dict_get (self_stoichs s) ''29_10'' * list_get (store s (self_rate_res s)) 28
     + dict_get (self_stoichs s) ''32_10'' * list_get (store s (self_rate_res s)) 31
     + dict_get (self_stoichs s) ''36_10'' * list_get (store s (self_rate_res s)) 35
     + dict_get (self_stoichs s) ''37_10'' * list_get (store s (self_rate_res s)) 36
     + dict_get (self_stoichs s) ''38_10'' * list_get (store s (self_rate_res s)) 37
     + dict_get (self_stoichs s) ''39_10'' * list_get (store s (self_rate_res s)) 38
     + dict_get (self_stoichs s) ''40_10'' * list_get (store s (self_rate_res s)) 39"

definition rate10_S_I :: "state \<Rightarrow> pyval" where
  "rate10_S_I s =
     dict_get (self_stoichs s) ''1_11'' * list_get (store s (self_rate_res s)) 0
     + dict_get (self_stoichs s) ''2_11'' * list_get (store s (self_rate_res s)) 1
     + dict_get (self_stoichs s) ''3_11'' * list_get (store s (self_rate_res s)) 2
     + dict_get (self_stoichs s) ''4_11'' * list_get (store s (self_rate_res s)) 3"

definition rate11_S_ALK :: "state \<Rightarrow> pyval" where
  "rate11_S_ALK s =
     dict_get (self_stoichs s) ''1_12'' * list_get (store s (self_rate_res s)) 0
     + dict_get (self_stoichs s) ''2_12'' * list_get (store s (self_rate_res s)) 1
     + dict_get (self_stoichs s) ''3_12'' * list_get (store s (self_rate_res s)) 2
     + dict_get (self_stoichs s) ''4_12'' * list_get (store s (self_rate_res s)) 3
     + dict_get (self_stoichs s) ''5_12'' * list_get (store s (self_rate_res s)) 4
     + dict_get (self_stoichs s) ''6_12'' * list_get (store s (self_rate_res s)) 5
     + dict_get (self_stoichs s) ''7_12'' * list_get (store s (self_rate_res s)) 6
     + dict_get (self_stoichs s) ''8_12'' * list_get (store s (self_rate_res s)) 7
     + dict_get (self_stoichs s) ''9_12'' * list_get (store s (self_rate_res s)) 8
     + dict_get (self_stoichs s) ''10_12'' * list_get (store s (self_rate_res s)) 9
     + dict_get (self_stoichs s) ''11_12'' * list_get (store s (self_rate_res s)) 10
     + dict_get (self_stoichs s) ''12_12'' * list_get (store s (self_rate_res s)) 11
     + dict_get (self_stoichs s) ''13_12'' * list_get (store s (self_rate_res s)) 12
     + dict_get (self_stoichs s) ''14_12'' * list_get (store s (self_rate_res s)) 13
     + dict_get (self_stoichs s) ''15_12'' * list_get (store s (self_rate_res s)) 14
     + dict_get (self_stoichs s) ''16_12'' * list_get (store s (self_rate_res s)) 15
     + dict_get (self_stoichs s) ''17_12'' * list_get (store s (self_rate_res s)) 16
     + dict_get (self_stoichs s) ''18_12'' * list_get (store s (self_rate_res s)) 17
     + dict_get (self_stoichs s) ''19_12'' * list_get (store s (self_rate_res s)) 18
     + dict_get (self_stoichs s) ''20_12'' * list_get (store s (self_rate_res s)) 19
     + dict_get (self_stoichs s) ''21_12'' * list_get (store s (self_rate_res s)) 20
     + dict_get (self_stoichs s) ''22_12'' * list_get (store s (self_rate_res s)) 21
     + dict_get (self_stoichs s) ''23_12'' * list_get (store s (self_rate_res s)) 22
     + dict_get (self_stoichs s) ''24_12'' * list_get (store s (self_rate_res s)) 23
     + dict_get (self_stoichs s) ''25_12'' * list_get (store s (self_rate_res s)) 24
     + dict_get (self_stoichs s) ''26_12'' * list_get (store s (self_rate_res s)) 25
     + dict_get (self_stoichs s) ''27_12'' * list_get (store s (self_rate_res s)) 26
     + dict_get (self_stoichs s) ''28_12'' * list_get (store s (self_rate_res s)) 27
     + dict_get (self_stoichs s) ''29_12'' * list_get (store s (self_rate_res s)) 28
     + dict_get (self_stoichs s) ''30_12'' * list_get (store s (self_rate_res s)) 29
     + dict_get (self_stoichs s) ''31_12'' * list_get (store s (self_rate_res s)) 30
     + dict_get (self_stoichs s) ''32_12'' * list_get (store s (self_rate_res s)) 31
     + dict_get (self_stoichs s) ''33_12'' * list_get (store s (self_rate_res s)) 32
     + dict_get (self_stoichs s) ''34_12'' * list_get (store s (self_rate_res s)) 33
     + dict_get (self_stoichs s) ''35_12'' * list_get (store s (self_rate_res s)) 34
     + dict_get (self_stoichs s) ''36_12'' * list_get (store s (self_rate_res s)) 35
     + dict_get (self_stoichs s) ''37_12'' * list_get (store s (self_rate_res s)) 36
     + dict_get (self_stoichs s) ''38_12'' * list_get (store s (self_rate_res s)) 37
     + dict_get (self_stoichs s) ''39_12'' * list_get (store s (self_rate_res s)) 38
     + dict_get (self_stoichs s) ''40_12'' * list_get (store s (self_rate_res s)) 39"

definition rate12_S_N2 :: "state \<Rightarrow> pyval" where
  "rate12_S_N2 s =
     dict_get (self_stoichs s) ''10_13'' * list_get (store s (self_rate_res s)) 9
     + dict_get (self_stoichs s) ''14_13'' * list_get (store s (self_rate_res s)) 13
     + dict_get (self_stoichs s) ''22_13'' * list_get (store s (self_rate_res s)) 21
     + dict_get (self_stoichs s) ''27_13'' * list_get (store s (self_rate_res s)) 26"

definition rate13_X_I :: "state \<Rightarrow> pyval" where
  "rate13_X_I s =
     dict_get (self_stoichs s) ''16_14'' * list_get (store s (self_rate_res s)) 15
     + dict_get (self_stoichs s) ''28_14'' * list_get (store s (self_rate_res s)) 27
     + dict_get (self_stoichs s) ''37_14'' * list_get (store s (self_rate_res s)) 36
     + dict_get (self_stoichs s) ''38_14'' * list_get (store s (self_rate_res s)) 37"

definition rate14_X_S :: "state \<Rightarrow> pyval" where
  "rate14_X_S s =
     dict_get (self_stoichs s) ''1_15'' * list_get (store s (self_rate_res s)) 0
     + dict_get (self_stoichs s) ''2_15'' * list_get (store s (self_rate_res s)) 1
     + dict_get (self_stoichs s) ''3_15'' * list_get (store s (self_rate_res s)) 2
     + dict_get (self_stoichs s) ''4_15'' * list_get (store s (self_rate_res s)) 3
     + dict_get (self_stoichs s) ''16_15'' * list_get (store s (self_rate_res s)) 15
     + dict_get (self_stoichs s) ''28_15'' * list_get (store s (self_rate_res s)) 27
     + dict_get (self_stoichs s) ''37_15'' * list_get (store s (self_rate_res s)) 36
     + dict_get (self_stoichs s) ''38_15'' * list_get (store s (self_rate_res s)) 37"

definition rate15_X_H :: "state \<Rightarrow> pyval" where
  "rate15_X_H s =
     dict_get (self_stoichs s) ''5_16'' * list_get (store s (self_rate_res s)) 4
     + dict_get (self_stoichs s) ''6_16'' * list_get (store s (self_rate_res s)) 5
     + dict_get (self_stoichs s) ''7_16'' * list_get (store s (self_rate_res s)) 6
     + dict_get (self_stoichs s) ''8_16'' * list_get (store s (self_rate_res s)) 7
     + dict_get (self_stoichs s) ''9_16'' * list_get (store s (self_rate_res s)) 8
     + dict_get (self_stoichs s) ''10_16'' * list_get (store s (self_rate_res s)) 9
     + dict_get (self_stoichs s) ''11_16'' * list_get (store s (self_rate_res s)) 10
     + dict_get (self_stoichs s) ''12_16'' * list_get (store s (self_rate_res s)) 11
     + dict_get (self_stoichs s) ''13_16'' * list_get (store s (self_rate_res s)) 12
     + dict_get (self_stoichs s) ''14_16'' * list_get (store s (self_rate_res s)) 13
     + dict_get (self_stoichs s) ''16_16'' * list_get (store s (self_rate_res s)) 15"

definition rate16_X_PAO :: "state \<Rightarrow> pyval" where
  "rate16_X_PAO s =
     dict_get (self_stoichs s) ''23_17'' * list_get (store s (self_rate_res s)) 22
     + dict_get (self_stoichs s) ''24_17'' * list_get (store s (self_rate_res s)) 23
     + dict_get (self_stoichs s) ''25_17'' * list_get (store s (self_rate_res s)) 24
     + dict_get (self_stoichs s) ''26_17'' * list_get (store s (self_rate_res s)) 25
     + dict_get (self_stoichs s) ''27_17'' * list_get (store s (self_rate_res s)) 26
     + dict_get (self_stoichs s) ''28_17'' * list_get (store s (self_rate_res s)) 27"

definition rate17_X_PP :: "state \<Rightarrow> pyval" where
  "rate17_X_PP s =
     dict_get (self_stoichs s) ''17_18'' * list_get (store s (self_rate_res s)) 16
     + dict_get (self_stoichs s) ''18_18'' * list_get (store s (self_rate_res s)) 17
     + dict_get (self_stoichs s) ''19_18'' * list_get (store s (self_rate_res s)) 18
     + dict_get (self_stoichs s) ''20_18'' * list_get (store s (self_rate_res s)) 19
     + dict_get (self_stoichs s) ''21_18'' * list_get (store s (self_rate_res s)) 20
     + dict_get (self_stoichs s) ''22_18'' * list_get (store s (self_rate_res s)) 21
     + dict_get (self_stoichs s) ''29_18'' * list_get (store s (self_rate_res s)) 28"

definition rate18_X_PHA :: "state \<Rightarrow> pyval" where
  "rate18_X_PHA s =
     dict_get (self_stoichs s) ''17_19'' * list_get (store s (self_rate_res s)) 16
     + dict_get (self_stoichs s) ''18_19'' * list_get (store s (self_rate_res s)) 17
     + dict_get (self_stoichs s) ''19_19'' * list_get (store s (self_rate_res s)) 18
     + dict_get (self_stoichs s) ''20_19'' * list_get (store s (self_rate_res s)) 19
     + dict_get (self_stoichs s) ''21_19'' * list_get (store s (self_rate_res s)) 20
     + dict_get (self_stoichs s) ''22_19'' * list_get (store s (self_rate_res s)) 21
     + dict_get (self_stoichs s) ''23_19'' * list_get (store s (self_rate_res s)) 22
     + dict_get (self_stoichs s) ''24_19'' * list_get (store s (self_rate_res s)) 23
     + dict_get (self_stoichs s) ''25_19'' * list_get (store s (self_rate_res s)) 24
     + dict_get (self_stoichs s) ''26_19'' * list_get (store s (self_rate_res s)) 25
     + dict_get (self_stoichs s) ''27_19'' * list_get (store s (self_rate_res s)) 26
     + dict_get (self_stoichs s) ''30_19'' * list_get (store s (self_rate_res s)) 29"

definition rate19_X_AOB :: "state \<Rightarrow> pyval" where
  "rate19_X_AOB s =
     dict_get (self_stoichs s) ''32_20'' * list_get (store s (self_rate_res s)) 31
     + dict_get (self_stoichs s) ''37_20'' * list_get (store s (self_rate_res s)) 36"

definition rate20_X_NOB :: "state \<Rightarrow> pyval" where
  "rate20_X_NOB s =
     dict_get (self_stoichs s) ''36_21'' * list_get (store s (self_rate_res s)) 35
     + dict_get (self_stoichs s) ''38_21'' * list_get (store s (self_rate_res s)) 37"

definition rate21_X_TSS :: "state \<Rightarrow> pyval" where
  "rate21_X_TSS s =
     dict_get (self_stoichs s) ''1_22'' * list_get (store s (self_rate_res s)) 0
     + dict_get (self_stoichs s) ''2_22'' * list_get (store s (self_rate_res s)) 1
     + dict_get (self_stoichs s) ''3_22'' * list_get (store s (self_rate_res s)) 2
     + dict_get (self_stoichs s) ''4_22'' * list_get (store s (self_rate_res s)) 3
     + dict_get (self_stoichs s) ''5_22'' * list_get (store s (self_rate_res s)) 4
     + dict_get (self_stoichs s) ''6_22'' * list_get (store s (self_rate_res s)) 5
     + dict_get (self_stoichs s) ''7_22'' * list_get (store s (self_rate_res s)) 6
     + dict_get (self_stoichs s) ''8_22'' * list_get (store s (self_rate_res s)) 7
     + dict_get (self_stoichs s) ''9_22'' * list_get (store s (self_rate_res s)) 8
     + dict_get (self_stoichs s) ''10_22'' * list_get (store s (self_rate_res s)) 9
     + dict_get (self_stoichs s) ''11_22'' * list_get (store s (self_rate_res s)) 10
     + dict_get (self_stoichs s) ''12_22'' * list_get (store s (self_rate_res s)) 11
     + dict_get (self_stoichs s) ''13_22'' * list_get (store s (self_rate_res s)) 12
     + dict_get (self_stoichs s) ''14_22'' * list_get (store s (self_rate_res s)) 13
     + dict_get (self_stoichs s) ''16_22'' * list_get (store s (self_rate_res s)) 15
     + dict_get (self_stoichs s) ''17_22'' * list_get (store s (self_rate_res s)) 16
     + dict_get (self_stoichs s) ''18_22'' * list_get (store s (self_rate_res s)) 17
     + dict_get (self_stoichs s) ''19_22'' * list_get (store s (self_rate_res s)) 18
     + dict_get (self_stoichs s) ''20_22'' * list_get (store s (self_rate_res s)) 19
     + dict_get (self_stoichs s) ''21_22'' * list_get (store s (self_rate_res s)) 20
     + dict_get (self_stoichs s) ''22_22'' * list_get (store s (self_rate_res s)) 21
     + dict_get (self_stoichs s) ''23_22'' * list_get (store s (self_rate_res s)) 22
     + dict_get (self_stoichs s) ''24_22'' * list_get (store s (self_rate_res s)) 23
     + dict_get (self_stoichs s) ''25_22'' * list_get (store s (self_rate_res s)) 24
     + dict_get (self_stoichs s) ''26_22'' * list_get (store s (self_rate_res s)) 25
     + dict_get (self_stoichs s) ''27_22'' * list_get (store s (self_rate_res s)) 26
     + dict_get (self_stoichs s) ''28_22'' * list_get (store s (self_rate_res s)) 27
     + dict_get (self_stoichs s) ''29_22'' * list_get (store s (self_rate_res s)) 28
     + dict_get (self_stoichs s) ''30_22'' * list_get (store s (self_rate_res s)) 29
     + dict_get (self_stoichs s) ''32_22'' * list_get (store s (self_rate_res s)) 31
     + dict_get (self_stoichs s) ''36_22'' * list_get (store s (self_rate_res s)) 35
     + dict_get (self_stoichs s) ''37_22'' * list_get (store s (self_rate_res s)) 36
     + dict_get (self_stoichs s) ''38_22'' * list_get (store s (self_rate_res s)) 37
     + dict_get (self_stoichs s) ''39_22'' * list_get (store s (self_rate_res s)) 38
     + dict_get (self_stoichs s) ''40_22'' * list_get (store s (self_rate_res s)) 39"

definition rate22_X_MeOH :: "state \<Rightarrow> pyval" where
  "rate22_X_MeOH s =
     dict_get (self_stoichs s) ''39_23'' * list_get (store s (self_rate_res s)) 38
     + dict_get (self_stoichs s) ''40_23'' * list_get (store s (self_rate_res s)) 39"

definition rate23_X_MeP :: "state \<Rightarrow> pyval" where
  "rate23_X_MeP s =
     dict_get (self_stoichs s) ''39_24'' * list_get (store s (self_rate_res s)) 38
     + dict_get (self_stoichs s) ''40_24'' * list_get (store s (self_rate_res s)) 39"

subsection \<open>\<^verbatim>\<open>_dCdt\<close>\<close>

text \<open>
  The entries of the result in the order in which they are appended. \<open>mass_balance\<close> is
  the body of \<^verbatim>\<open>_dCdt\<close> after its call of \<^verbatim>\<open>_reaction_rate\<close>: the hydraulic
  retention time, then the list. The result is a fresh list, returned as a value.
\<close>

definition dCdt_entries :: "real \<Rightarrow> addr \<Rightarrow> addr \<Rightarrow> bool \<Rightarrow> real \<Rightarrow> (state \<Rightarrow> pyval) list" where
  "dCdt_entries HRT mo_comps in_comps fix_DO DO_sat_T = [
     \<lambda>s. if fix_DO \<or> self_bulk_DO s = 0 then Val 0
         else (list_get (store s in_comps) 0 - list_get (store s mo_comps) 0) / Val HRT + Val (self_KLa s) * (Val DO_sat_T - list_get (store s mo_comps) 0) + rate0_S_O2 s,
     \<lambda>s. (list_get (store s in_comps) 1 - list_get (store s mo_comps) 1) / Val HRT + rate1_S_F s,
     \<lambda>s. (list_get (store s in_comps) 2 - list_get (store s mo_comps) 2) / Val HRT + rate2_S_A s,
     \<lambda>s. (list_get (store s in_comps) 3 - list_get (store s mo_comps) 3) / Val HRT + rate3_S_NH4 s,
     \<lambda>s. (list_get (store s in_comps) 4 - list_get (store s mo_comps) 4) / Val HRT + rate4_S_NH2OH s,
     \<lambda>s. (list_get (store s in_comps) 5 - list_get (store s mo_comps) 5) / Val HRT + rate5_S_N2O s,
     \<lambda>s. (list_get (store s in_comps) 6 - list_get (store s mo_comps) 6) / Val HRT + rate6_S_NO s,
     \<lambda>s. (list_get (store s in_comps) 7 - list_get (store s mo_comps) 7) / Val HRT + rate7_S_NO2 s,
     \<lambda>s. (list_get (store s in_comps) 8 - list_get (store s mo_comps) 8) / Val HRT + rate8_S_NO3 s,
     \<lambda>s. (list_get (store s in_comps) 9 - list_get (store s mo_comps) 9) / Val HRT + rate9_S_PO4 s,
     \<lambda>s. (list_get (store s in_comps) 10 - list_get (store s mo_comps) 10) / Val HRT + rate10_S_I s,
     \<lambda>s. (list_get (store s in_comps) 11 - list_get (store s mo_comps) 11) / Val HRT + rate11_S_ALK s,
     \<lambda>s. (list_get (store s in_comps) 12 - list_get (store s mo_comps) 12) / Val HRT + rate12_S_N2 s,
     \<lambda>s. (list_get (store s in_comps) 13 - list_get (store s mo_comps) 13) / Val HRT + rate13_X_I s,
     \<lambda>s. (list_get (store s in_comps) 14 - list_get (store s mo_comps) 14) / Val HRT + rate14_X_S s,
     \<lambda>s. (list_get (store s in_comps) 15 - list_get (store s mo_comps) 15) / Val HRT + rate15_X_H s,
     \<lambda>s. (list_get (store s in_comps) 16 - list_get (store s mo_comps) 16) / Val HRT + rate16_X_PAO s,
     \<lambda>s. (list_get (store s in_comps) 17 - list_get (store s mo_comps) 17) / Val HRT + rate17_X_PP s,
     \<lambda>s. (list_get (store s in_comps) 18 - list_get (store s mo_comps) 18) / Val HRT + rate18_X_PHA s,
     \<lambda>s. (list_get (store s in_comps) 19 - list_get (store s mo_comps) 19) / Val HRT + rate19_X_AOB s,
     \<lambda>s. (list_get (store s in_comps) 20 - list_get (store s mo_comps) 20) / Val HRT + rate20_X_NOB s,
     \<lambda>s. (list_get (store s in_comps) 21 - list_get (store s mo_comps) 21) / Val HRT + rate21_X_TSS s,
     \<lambda>s. (list_get (store s in_comps) 22 - list_get (store s mo_comps) 22) / Val HRT + rate22_X_MeOH s,
     \<lambda>s. (list_get (store s in_comps) 23 - list_get (store s mo_comps) 23) / Val HRT + rate23_X_MeP s]"

fun build_list :: "(state \<Rightarrow> pyval) list \<Rightarrow> state \<Rightarrow> py_exception + real list" where
  "build_list [] s = Inr []"
| "build_list (e # es) s =
     (case e s of
        Raise x \<Rightarrow> Inl x
      | Val v \<Rightarrow> (case build_list es s of Inl x \<Rightarrow> Inl x | Inr vs \<Rightarrow> Inr (v # vs)))"

definition mass_balance ::
  "state \<Rightarrow> addr \<Rightarrow> real \<Rightarrow> real \<Rightarrow> addr \<Rightarrow> bool \<Rightarrow> real \<Rightarrow> py_exception + real list" where
  "mass_balance s mo_comps vol flow in_comps fix_DO DO_sat_T =
     (case Val vol / Val flow of
        Raise x \<Rightarrow> Inl x
      | Val HRT \<Rightarrow> build_list (dCdt_entries HRT mo_comps in_comps fix_DO DO_sat_T) s)"

definition dCdt ::
  "state \<Rightarrow> real \<Rightarrow> addr \<Rightarrow> real \<Rightarrow> real \<Rightarrow> addr \<Rightarrow> bool \<Rightarrow> real
   \<Rightarrow> state \<times> (py_exception + real list)" where
  "dCdt s t mo_comps vol flow in_comps fix_DO DO_sat_T =
     (case reaction_rate s mo_comps of
        (s1, Inl x) \<Rightarrow> (s1, Inl x)
      | (s1, Inr _) \<Rightarrow> (s1, mass_balance s1 mo_comps vol flow in_comps fix_DO DO_sat_T))"

section \<open>Reference states\<close>

text \<open>
  \<open>world0\<close> is an interpreter state with nothing allocated; its attribute fields are
  placeholders, all overwritten by \<^verbatim>\<open>__init__\<close>. \<open>model0\<close> is the object that
  \<^verbatim>\<open>ASM2d_N2O(20, 2)\<close> builds in it.
\<close>

definition world0 :: state where
  "world0 = \<lparr>store = (\<lambda>_. []), next_addr = 0, stdout = [],
     self_temperature = 0, self_bulk_DO = 0, self_kinetics_20C = Map.empty,
     self_params = Map.empty, self_stoichs = Map.empty, self_comps = 0, self_delta_t = 0,
     self_KLa = 0, self_monods = 0, self_rate_res = 0\<rparr>"

definition model0 :: state where
  "model0 = fst (ASM2d_N2O_init world0 20 2)"

text \<open>
  \<open>caller0\<close> is \<open>model0\<close> after its caller has built two lists of 24 ones: the state
  vector at address 4 and the influent vector at address 5. \<open>caller_pp\<close> is the same with
  polyphosphate (component 17) at 0.35 in the state vector, so that the stored
  polyphosphate per PAO biomass, 0.35, is above \<^verbatim>\<open>K_MAX_P\<close> = 0.34.
\<close>

definition caller0 :: state where
  "caller0 = snd (new_list (replicate 24 1) (snd (new_list (replicate 24 1) model0)))"

definition caller_pp :: state where
  "caller_pp = snd (new_list (replicate 24 1) (snd (new_list ((replicate 24 1)[17 := 0.35]) model0)))"

section \<open>Which attributes an assignment body reads\<close>

text \<open>
  Two states agree for a body that fills the dictionary \<open>dst\<close> from the attribute
  \<open>src\<close> when they have the same \<open>src\<close> and the same entries of \<open>dst\<close> at the keys
  \<open>K\<close>. A body reads only what it is given when each of its expressions takes the same
  value in any two states that agree on \<open>src\<close> and on the keys assigned before it.
\<close>

definition dict_agree ::
  "(state \<Rightarrow> 'a) \<Rightarrow> (state \<Rightarrow> string \<rightharpoonup> real) \<Rightarrow> string set \<Rightarrow> state \<Rightarrow> state \<Rightarrow> bool" where
  "dict_agree src dst K s t = (src s = src t \<and> (\<forall>k\<in>K. dst s k = dst t k))"

fun reads_only ::
  "(state \<Rightarrow> 'a) \<Rightarrow> (state \<Rightarrow> string \<rightharpoonup> real) \<Rightarrow> string set \<Rightarrow> string assign list \<Rightarrow> bool" where
  "reads_only src dst K [] = True"
| "reads_only src dst K ((k, e) # as) =
     ((\<forall>s t. dict_agree src dst K s t \<longrightarrow> e s = e t) \<and> reads_only src dst (insert k K) as)"

section \<open>States in which \<^verbatim>\<open>update\<close> runs through\<close>

text \<open>
  \<^verbatim>\<open>_set_stoichs\<close> divides by five of the parameters (and by products of them).
  \<open>kinetics_ok\<close> holds when the reference kinetics have every name that
  \<^verbatim>\<open>_set_params\<close> copies and none of the five divisors is zero; \<open>params_ok\<close> says
  the same of the working parameters.
\<close>

definition stoichs_divisors :: "string list" where
  "stoichs_divisors = [''Y_H'', ''n_G'', ''Y_PAO'', ''Y_AOB'', ''Y_NOB'']"

definition kinetics_ok :: "state \<Rightarrow> bool" where
  "kinetics_ok s =
     (list_all (\<lambda>k. self_kinetics_20C s k \<noteq> None) set_params_keys \<and>
      list_all (\<lambda>k. self_kinetics_20C s k \<noteq> Some 0) stoichs_divisors)"

definition params_ok :: "state \<Rightarrow> bool" where
  "params_ok s =
     (list_all (\<lambda>k. self_params s k \<noteq> None) set_params_keys \<and>
      list_all (\<lambda>k. self_params s k \<noteq> Some 0) stoichs_divisors)"

section \<open>Evaluation rules\<close>

lemma pybind_simps [simp]:
  "pybind (Val x) f = f x" "pybind (Raise e) f = Raise e"
  by (simp_all add: pybind_def)

lemma pyval_arith [simp]:
  "Val x + Val y = Val (x + y)" "Val x - Val y = Val (x - y)" "Val x * Val y = Val (x * y)"
  "Val x / Val y = (if y = 0 then Raise ZeroDivisionError else Val (x / y))"
  "Raise e + b = Raise e" "Raise e - b = Raise e" "Raise e * b = Raise e" "Raise e / b = Raise e"
  "Val x + Raise e = Raise e" "Val x - Raise e = Raise e" "Val x * Raise e = Raise e"
  "Val x / Raise e = Raise e"
  by (simp_all add: plus_pyval_def minus_pyval_def times_pyval_def divide_pyval_def)

lemma run_append:
  "run put (as @ bs) s =
     (case run put as s of (s', Some x) \<Rightarrow> (s', Some x) | (s', None) \<Rightarrow> run put bs s')"
  by (induction as arbitrary: s) (auto split: pyval.splits prod.splits option.splits)

section \<open>\<^verbatim>\<open>_reaction_rate\<close> never returns\<close>

text \<open>A body that holds an assignment whose expression raises in every state raises.\<close>

lemma run_raises_member:
  assumes "(k, e) \<in> set as" and "\<And>s. \<exists>x. e s = Raise x"
  shows "\<exists>x. snd (run put as s) = Some x"
  using assms(1)
proof (induction as arbitrary: s)
  case Nil
  then show ?case by simp
next
  case (Cons a as)
  obtain k' e' where a: "a = (k', e')" by (cases a)
  show ?case
  proof (cases "e' s")
    case (Raise x)
    then show ?thesis by (simp add: a)
  next
    case (Val v)
    show ?thesis
    proof (cases "put k' v s")
      case (Pair s' r)
      show ?thesis
      proof (cases r)
        case (Some x)
        then show ?thesis by (simp add: a Val Pair)
      next
        case None
        have "(k, e) \<noteq> a"
          using assms(2)[of s] Val a by auto
        then have "(k, e) \<in> set as" using Cons.prems by simp
        from Cons.IH[OF this, of s'] show ?thesis by (simp add: a Val Pair None)
      qed
    qed
  qed
qed

lemma method_subscript_raises: "\<exists>x. a * method_subscript (Val i) = Raise x"
  by (cases a) (simp_all add: method_subscript_def)

lemma raise_times: "\<exists>x. a = Raise x \<Longrightarrow> \<exists>x. a * b = Raise x"
  by auto

text \<open>Source line 722, the rate of process 15.\<close>

lemma rate_14_member:
  "(14, \<lambda>s. dict_get (self_params s) ''q_fe'' * list_get (store s (self_monods s)) 14 * list_get (store s (self_monods s)) 27 * method_subscript (Val 28) * list_get (store s (self_monods s)) 11 * list_get (store s comps) 15)
   \<in> set (rate_expressions comps)"
  by (simp add: rate_expressions_def)

lemma rate_expressions_raise: "\<exists>x. snd (run put (rate_expressions comps) s) = Some x"
  by (rule run_raises_member[OF rate_14_member])
     (intro raise_times method_subscript_raises)

lemma reaction_rate_raises: "\<exists>x. snd (reaction_rate s comps) = Inl x"
proof (cases "run monods_put (monod_terms comps @ omitted_monod_terms comps) s")
  case (Pair s1 r)
  show ?thesis
  proof (cases r)
    case (Some x)
    then show ?thesis by (simp add: reaction_rate_def Pair)
  next
    case None
    obtain x where "snd (run rate_res_put (rate_expressions comps) s1) = Some x"
      using rate_expressions_raise by blast
    then show ?thesis
      by (cases "run rate_res_put (rate_expressions comps) s1")
         (simp add: reaction_rate_def Pair None)
  qed
qed

lemma dCdt_raises: "\<exists>x. snd (dCdt s t mo_comps vol flow in_comps fix_DO DO_sat_T) = Inl x"
proof -
  obtain x where "snd (reaction_rate s mo_comps) = Inl x"
    using reaction_rate_raises by blast
  then show ?thesis
    by (cases "reaction_rate s mo_comps") (simp add: dCdt_def)
qed

section \<open>Running an assignment body\<close>

lemma dict_agree_mono: "dict_agree src dst K s t \<Longrightarrow> K' \<subseteq> K \<Longrightarrow> dict_agree src dst K' s t"
  by (auto simp: dict_agree_def)

lemma reads_only_mono: "reads_only src dst K as \<Longrightarrow> K \<subseteq> K' \<Longrightarrow> reads_only src dst K' as"
proof (induction as arbitrary: K K')
  case Nil
  then show ?case by simp
next
  case (Cons a as)
  obtain k e where a: "a = (k, e)" by (cases a)
  from Cons.prems have 1: "\<forall>s t. dict_agree src dst K s t \<longrightarrow> e s = e t"
    and 2: "reads_only src dst (insert k K) as" by (simp_all add: a)
  have "reads_only src dst (insert k K') as"
    by (rule Cons.IH[OF 2]) (use Cons.prems(2) in auto)
  moreover have "\<forall>s t. dict_agree src dst K' s t \<longrightarrow> e s = e t"
    using 1 dict_agree_mono[OF _ Cons.prems(2)] by blast
  ultimately show ?case by (simp add: a)
qed

lemma reads_only_src:
  "list_all (\<lambda>(k, e). \<forall>s t. src s = src t \<longrightarrow> e s = e t) as \<Longrightarrow> reads_only src dst K as"
proof (induction as arbitrary: K)
  case Nil
  show ?case by simp
next
  case (Cons a as)
  obtain k e where a: "a = (k, e)" by (cases a)
  from Cons.prems
  have both: "(\<forall>s t. src s = src t \<longrightarrow> e s = e t) \<and>
              list_all (\<lambda>(k, e). \<forall>s t. src s = src t \<longrightarrow> e s = e t) as"
    unfolding a list.pred_inject split_conv .
  have "\<forall>s t. dict_agree src dst K s t \<longrightarrow> e s = e t"
    using conjunct1[OF both] unfolding dict_agree_def by blast
  moreover have "reads_only src dst (insert k K) as"
    by (rule Cons.IH[OF conjunct2[OF both]])
  ultimately show ?case unfolding a reads_only.simps by (rule conjI)
qed

lemma reads_only_append:
  "reads_only src dst K as \<Longrightarrow> reads_only src dst K bs \<Longrightarrow> reads_only src dst K (as @ bs)"
proof (induction as arbitrary: K)
  case Nil
  then show ?case by simp
next
  case (Cons a as)
  obtain k e where a: "a = (k, e)" by (cases a)
  have "reads_only src dst (insert k K) bs"
    by (rule reads_only_mono[OF Cons.prems(2)]) auto
  with Cons show ?case by (simp add: a)
qed

text \<open>
  A dictionary body run from two agreeing states ends with the same outcome, and the two
  final dictionaries agree on every key that the second run assigned.
\<close>

lemma run_dict_agree:
  fixes upd :: "string \<Rightarrow> real \<Rightarrow> state \<Rightarrow> state"
  defines "put \<equiv> \<lambda>k v s. (upd k v s, None)"
  assumes dst: "\<And>k v s. dst (upd k v s) = (dst s)(k \<mapsto> v)"
    and src: "\<And>k v s. src (upd k v s) = src s"
    and "reads_only src dst K as" and "dict_agree src dst K s t"
  shows "snd (run put as s) = snd (run put as t) \<and>
         (\<exists>W. dict_agree src dst (K \<union> W) (fst (run put as s)) (fst (run put as t)) \<and>
              (\<forall>k. k \<notin> W \<longrightarrow> dst (fst (run put as t)) k = dst t k))"
  using assms(4,5)
proof (induction as arbitrary: K s t)
  case Nil
  then show ?case by (auto intro!: exI[of _ "{}"])
next
  case (Cons a as)
  obtain k e where a: "a = (k, e)" by (cases a)
  from Cons.prems have e: "e s = e t" and ro: "reads_only src dst (insert k K) as"
    by (simp_all add: a)
  show ?case
  proof (cases "e s")
    case (Raise x)
    moreover from Raise e have "e t = Raise x" by simp
    ultimately show ?thesis using Cons.prems(2) by (auto simp: a intro!: exI[of _ "{}"])
  next
    case (Val v)
    have ag: "dict_agree src dst (insert k K) (upd k v s) (upd k v t)"
      using Cons.prems(2) by (auto simp: dict_agree_def dst src)
    from Cons.IH[OF ro ag] obtain W where
      r: "snd (run put as (upd k v s)) = snd (run put as (upd k v t))"
      and W: "dict_agree src dst (insert k K \<union> W) (fst (run put as (upd k v s)))
                (fst (run put as (upd k v t)))"
      and fr: "\<forall>k'. k' \<notin> W \<longrightarrow> dst (fst (run put as (upd k v t))) k' = dst (upd k v t) k'"
      by blast
    have "dict_agree src dst (K \<union> insert k W) (fst (run put as (upd k v s)))
            (fst (run put as (upd k v t)))"
      using W by (simp add: Un_commute insert_commute)
    moreover have "\<forall>k'. k' \<notin> insert k W \<longrightarrow> dst (fst (run put as (upd k v t))) k' = dst t k'"
      using fr by (auto simp: dst)
    moreover from Val e have "e t = Val v" by simp
    moreover have "put k v s = (upd k v s, None)" "put k v t = (upd k v t, None)"
      by (simp_all add: put_def)
    ultimately show ?thesis
      using r Val by (auto simp: a intro!: exI[of _ "insert k W"])
  qed
qed


text \<open>
  Run from a state that agrees with the state it has already produced, the body
  repeats its outcome and leaves the dictionary as it is.
\<close>

lemma run_dict_again:
  fixes upd :: "string \<Rightarrow> real \<Rightarrow> state \<Rightarrow> state"
  defines "put \<equiv> \<lambda>k v s. (upd k v s, None)"
  assumes dst: "\<And>k v s. dst (upd k v s) = (dst s)(k \<mapsto> v)"
    and src: "\<And>k v s. src (upd k v s) = src s"
    and ro: "reads_only src dst {} as"
    and t: "src t = src s" "dst t = dst (fst (run put as s))"
  shows "snd (run put as t) = snd (run put as s) \<and> dst (fst (run put as t)) = dst t"
proof -
  have ag: "dict_agree src dst {} s t"
    by (simp add: dict_agree_def t)
  from run_dict_agree[of dst upd src, OF dst src ro ag] obtain W where
    r: "snd (run put as s) = snd (run put as t)"
    and W: "dict_agree src dst W (fst (run put as s)) (fst (run put as t))"
    and fr: "\<forall>k. k \<notin> W \<longrightarrow> dst (fst (run put as t)) k = dst t k"
    unfolding put_def by auto
  have "dst (fst (run put as t)) = dst t"
  proof
    fix k show "dst (fst (run put as t)) k = dst t k"
      using W fr t by (cases "k \<in> W") (auto simp: dict_agree_def)
  qed
  with r show ?thesis by simp
qed

text \<open>From here on a body is unfolded one assignment at a time, by the rule of its target.\<close>

declare run.simps(2) [simp del]

lemma run_stoichs_Cons [simp]:
  "run stoichs_put ((k, e) # as) s =
     (case e s of
        Raise x \<Rightarrow> (s, Some x)
      | Val v \<Rightarrow> run stoichs_put as (s\<lparr>self_stoichs := (self_stoichs s)(k \<mapsto> v)\<rparr>))"
  by (cases "e s") (simp_all add: run.simps(2) stoichs_put_def)

lemma run_params_Cons [simp]:
  "run params_put ((k, e) # as) s =
     (case e s of
        Raise x \<Rightarrow> (s, Some x)
      | Val v \<Rightarrow> run params_put as (s\<lparr>self_params := (self_params s)(k \<mapsto> v)\<rparr>))"
  by (cases "e s") (simp_all add: run.simps(2) params_put_def)

lemma run_kinetics_20C_Cons [simp]:
  "run kinetics_20C_put ((k, e) # as) s =
     (case e s of
        Raise x \<Rightarrow> (s, Some x)
      | Val v \<Rightarrow>
          run kinetics_20C_put as (s\<lparr>self_kinetics_20C := (self_kinetics_20C s)(k \<mapsto> v)\<rparr>))"
  by (cases "e s") (simp_all add: run.simps(2) kinetics_20C_put_def)

lemma run_monods_Cons [simp]:
  "run monods_put ((k, e) # as) s =
     (case e s of
        Raise x \<Rightarrow> (s, Some x)
      | Val v \<Rightarrow>
          if k < length (store s (self_monods s))
          then run monods_put as
                 (s\<lparr>store := (store s)(self_monods s := (store s (self_monods s))[k := v])\<rparr>)
          else (s, Some IndexError))"
  by (cases "e s") (simp_all add: run.simps(2) monods_put_def list_put_def)

lemma run_rate_res_Cons [simp]:
  "run rate_res_put ((k, e) # as) s =
     (case e s of
        Raise x \<Rightarrow> (s, Some x)
      | Val v \<Rightarrow>
          if k < length (store s (self_rate_res s))
          then run rate_res_put as
                 (s\<lparr>store := (store s)(self_rate_res s := (store s (self_rate_res s))[k := v])\<rparr>)
          else (s, Some IndexError))"
  by (cases "e s") (simp_all add: run.simps(2) rate_res_put_def list_put_def)

lemma dict_put_eq:
  "stoichs_put = (\<lambda>k v s. (s\<lparr>self_stoichs := (self_stoichs s)(k \<mapsto> v)\<rparr>, None))"
  "params_put = (\<lambda>k v s. (s\<lparr>self_params := (self_params s)(k \<mapsto> v)\<rparr>, None))"
  by (intro ext, simp add: stoichs_put_def params_put_def)+

text \<open>What a body leaves alone.\<close>

lemma run_stoichs_frame:
  "fst (run stoichs_put as s) = s\<lparr>self_stoichs := self_stoichs (fst (run stoichs_put as s))\<rparr>"
proof (induction as arbitrary: s)
  case Nil
  then show ?case by simp
next
  case (Cons a as)
  obtain k e where a: "a = (k, e)" by (cases a)
  show ?case
  proof (cases "e s")
    case (Raise x)
    then show ?thesis by (simp add: a)
  next
    case (Val v)
    have "fst (run stoichs_put as (s\<lparr>self_stoichs := (self_stoichs s)(k \<mapsto> v)\<rparr>)) =
          s\<lparr>self_stoichs := (self_stoichs s)(k \<mapsto> v)\<rparr>
          \<lparr>self_stoichs := self_stoichs (fst (run stoichs_put as (s\<lparr>self_stoichs := (self_stoichs s)(k \<mapsto> v)\<rparr>)))\<rparr>"
      by (rule Cons.IH)
    then show ?thesis by (simp add: a Val)
  qed
qed

lemma run_params_frame:
  "fst (run params_put as s) = s\<lparr>self_params := self_params (fst (run params_put as s))\<rparr>"
proof (induction as arbitrary: s)
  case Nil
  then show ?case by simp
next
  case (Cons a as)
  obtain k e where a: "a = (k, e)" by (cases a)
  show ?case
  proof (cases "e s")
    case (Raise x)
    then show ?thesis by (simp add: a)
  next
    case (Val v)
    have "fst (run params_put as (s\<lparr>self_params := (self_params s)(k \<mapsto> v)\<rparr>)) =
          s\<lparr>self_params := (self_params s)(k \<mapsto> v)\<rparr>
          \<lparr>self_params := self_params (fst (run params_put as (s\<lparr>self_params := (self_params s)(k \<mapsto> v)\<rparr>)))\<rparr>"
      by (rule Cons.IH)
    then show ?thesis by (simp add: a Val)
  qed
qed

lemma run_kinetics_20C_frame:
  "fst (run kinetics_20C_put as s) =
     s\<lparr>self_kinetics_20C := self_kinetics_20C (fst (run kinetics_20C_put as s))\<rparr>"
proof (induction as arbitrary: s)
  case Nil
  then show ?case by simp
next
  case (Cons a as)
  obtain k e where a: "a = (k, e)" by (cases a)
  show ?case
  proof (cases "e s")
    case (Raise x)
    then show ?thesis by (simp add: a)
  next
    case (Val v)
    have "fst (run kinetics_20C_put as (s\<lparr>self_kinetics_20C := (self_kinetics_20C s)(k \<mapsto> v)\<rparr>)) =
          s\<lparr>self_kinetics_20C := (self_kinetics_20C s)(k \<mapsto> v)\<rparr>
          \<lparr>self_kinetics_20C := self_kinetics_20C (fst (run kinetics_20C_put as (s\<lparr>self_kinetics_20C := (self_kinetics_20C s)(k \<mapsto> v)\<rparr>)))\<rparr>"
      by (rule Cons.IH)
    then show ?thesis by (simp add: a Val)
  qed
qed

lemma run_stoichs_params: "self_params (fst (run stoichs_put as s)) = self_params s"
  by (subst run_stoichs_frame) simp

lemma run_stoichs_other_keys:
  "k \<notin> fst ` set as \<Longrightarrow> self_stoichs (fst (run stoichs_put as s)) k = self_stoichs s k"
  by (induction as arbitrary: s) (auto split: pyval.splits)

section \<open>\<^verbatim>\<open>update\<close> twice\<close>

lemmas stoichs_rows_defs =
  stoichs_row_1_def stoichs_row_2_def stoichs_row_3_def stoichs_row_4_def stoichs_row_5_def
  stoichs_row_6_def stoichs_row_7_def stoichs_row_8_def stoichs_row_9_def stoichs_row_10_def
  stoichs_row_11_def stoichs_row_12_def stoichs_row_13_def stoichs_row_14_def stoichs_row_15_def
  stoichs_row_16_def stoichs_row_17_def stoichs_row_18_def stoichs_row_19_def stoichs_row_20_def
  stoichs_row_21_def stoichs_row_22_def stoichs_row_23_def stoichs_row_24_def stoichs_row_25_def
  stoichs_row_26_def stoichs_row_27_def stoichs_row_28_def stoichs_row_29_def stoichs_row_30_def
  stoichs_row_31_def stoichs_row_32_def stoichs_row_33_def stoichs_row_34_def stoichs_row_35_def
  stoichs_row_36_def stoichs_row_37_def stoichs_row_38_def stoichs_row_39_def stoichs_row_40_def

text \<open>
  Every expression of \<^verbatim>\<open>_set_stoichs\<close> reads the working parameters and coefficients
  that its own row has assigned before it, and nothing else.
\<close>

lemma reads_only_rows:
  "reads_only self_params self_stoichs {} stoichs_row_1"
  "reads_only self_params self_stoichs {} stoichs_row_2"
  "reads_only self_params self_stoichs {} stoichs_row_3"
  "reads_only self_params self_stoichs {} stoichs_row_4"
  "reads_only self_params self_stoichs {} stoichs_row_5"
  "reads_only self_params self_stoichs {} stoichs_row_6"
  "reads_only self_params self_stoichs {} stoichs_row_7"
  "reads_only self_params self_stoichs {} stoichs_row_8"
  "reads_only self_params self_stoichs {} stoichs_row_9"
  "reads_only self_params self_stoichs {} stoichs_row_10"
  "reads_only self_params self_stoichs {} stoichs_row_11"
  "reads_only self_params self_stoichs {} stoichs_row_12"
  "reads_only self_params self_stoichs {} stoichs_row_13"
  "reads_only self_params self_stoichs {} stoichs_row_14"
  "reads_only self_params self_stoichs {} stoichs_row_15"
  "reads_only self_params self_stoichs {} stoichs_row_16"
  "reads_only self_params self_stoichs {} stoichs_row_17"
  "reads_only self_params self_stoichs {} stoichs_row_18"
  "reads_only self_params self_stoichs {} stoichs_row_19"
  "reads_only self_params self_stoichs {} stoichs_row_20"
  "reads_only self_params self_stoichs {} stoichs_row_21"
  "reads_only self_params self_stoichs {} stoichs_row_22"
  "reads_only self_params self_stoichs {} stoichs_row_23"
  "reads_only self_params self_stoichs {} stoichs_row_24"
  "reads_only self_params self_stoichs {} stoichs_row_25"
  "reads_only self_params self_stoichs {} stoichs_row_26"
  "reads_only self_params self_stoichs {} stoichs_row_27"
  "reads_only self_params self_stoichs {} stoichs_row_28"
  "reads_only self_params self_stoichs {} stoichs_row_29"
  "reads_only self_params self_stoichs {} stoichs_row_30"
  "reads_only self_params self_stoichs {} stoichs_row_31"
  "reads_only self_params self_stoichs {} stoichs_row_32"
  "reads_only self_params self_stoichs {} stoichs_row_33"
  "reads_only self_params self_stoichs {} stoichs_row_34"
  "reads_only self_params self_stoichs {} stoichs_row_35"
  "reads_only self_params self_stoichs {} stoichs_row_36"
  "reads_only self_params self_stoichs {} stoichs_row_37"
  "reads_only self_params self_stoichs {} stoichs_row_38"
  "reads_only self_params self_stoichs {} stoichs_row_39"
  "reads_only self_params self_stoichs {} stoichs_row_40"
  by (simp_all add: stoichs_rows_defs dict_agree_def dict_get_def)

lemma reads_only_set_stoichs_body: "reads_only self_params self_stoichs {} set_stoichs_body"
  unfolding set_stoichs_body_def by (intro reads_only_append reads_only_rows)

lemma reads_only_copy:
  "reads_only self_kinetics_20C self_params K
     (map (\<lambda>k. (k, \<lambda>s. dict_get (self_kinetics_20C s) k)) ks)"
  by (rule reads_only_src) (induction ks, simp_all)

lemma set_stoichs_again:
  assumes "self_params t = self_params s" "self_stoichs t = self_stoichs (fst (set_stoichs s))"
  shows "set_stoichs t = (t, snd (set_stoichs s))"
proof -
  have "snd (set_stoichs t) = snd (set_stoichs s) \<and> self_stoichs (fst (set_stoichs t)) = self_stoichs t"
    unfolding set_stoichs_def dict_put_eq
    by (rule run_dict_again[where src = self_params and dst = self_stoichs])
       (use assms in \<open>simp_all add: reads_only_set_stoichs_body set_stoichs_def dict_put_eq\<close>)
  moreover have "fst (set_stoichs t) = t\<lparr>self_stoichs := self_stoichs (fst (set_stoichs t))\<rparr>"
    unfolding set_stoichs_def by (rule run_stoichs_frame)
  ultimately show ?thesis by (simp add: prod_eq_iff)
qed

lemma set_params_again:
  assumes "self_kinetics_20C t = self_kinetics_20C s" "self_params t = self_params (fst (set_params s))"
  shows "set_params t = (t, snd (set_params s))"
proof -
  have "snd (set_params t) = snd (set_params s) \<and> self_params (fst (set_params t)) = self_params t"
    unfolding set_params_def dict_put_eq
    by (rule run_dict_again[where src = self_kinetics_20C and dst = self_params])
       (use assms in \<open>simp_all add: reads_only_copy set_params_def dict_put_eq\<close>)
  moreover have "fst (set_params t) = t\<lparr>self_params := self_params (fst (set_params t))\<rparr>"
    unfolding set_params_def by (rule run_params_frame)
  ultimately show ?thesis by (simp add: prod_eq_iff)
qed

lemma update_again: "update (fst (update s ww_temp DO)) ww_temp DO = update s ww_temp DO"
proof -
  define s1 where "s1 = s\<lparr>self_temperature := ww_temp, self_bulk_DO := DO, self_delta_t := ww_temp - 20\<rparr>"
  obtain s2 r2 where p: "set_params s1 = (s2, r2)" by (cases "set_params s1")
  have s2: "s2 = s1\<lparr>self_params := self_params s2\<rparr>"
    using run_params_frame[of "map (\<lambda>k. (k, \<lambda>s. dict_get (self_kinetics_20C s) k)) set_params_keys" s1] p
    by (simp add: set_params_def)
  have k2: "self_kinetics_20C s2 = self_kinetics_20C s1"
    by (subst s2) simp
  have fields: "s2\<lparr>self_temperature := ww_temp, self_bulk_DO := DO, self_delta_t := ww_temp - 20\<rparr> = s2"
    by (subst (2) s2, subst s2) (simp add: s1_def)
  have again2: "set_params s2 = (s2, r2)"
    using set_params_again[of s2 s1, OF k2] p by simp
  show ?thesis
  proof (cases r2)
    case (Some x)
    then show ?thesis using p again2 fields by (simp add: update_def s1_def[symmetric])
  next
    case None
    obtain s3 r3 where q: "set_stoichs s2 = (s3, r3)" by (cases "set_stoichs s2")
    have s3: "s3 = s2\<lparr>self_stoichs := self_stoichs s3\<rparr>"
      using run_stoichs_frame[of set_stoichs_body s2] q by (simp add: set_stoichs_def)
    have k3: "self_kinetics_20C s3 = self_kinetics_20C s2" and p3: "self_params s3 = self_params s2"
      by (subst s3, simp)+
    have f3: "s3\<lparr>self_temperature := ww_temp, self_bulk_DO := DO, self_delta_t := ww_temp - 20\<rparr> = s3"
    proof -
      have "s3\<lparr>self_temperature := ww_temp, self_bulk_DO := DO, self_delta_t := ww_temp - 20\<rparr> =
            s2\<lparr>self_temperature := ww_temp, self_bulk_DO := DO, self_delta_t := ww_temp - 20\<rparr>
              \<lparr>self_stoichs := self_stoichs s3\<rparr>"
        by (subst s3) simp
      also have "\<dots> = s2\<lparr>self_stoichs := self_stoichs s3\<rparr>" by (simp only: fields)
      also have "\<dots> = s3" by (rule s3[symmetric])
      finally show ?thesis .
    qed
    have ps3: "set_params s3 = (s3, None)"
      using set_params_again[of s3 s2, OF k3] again2 None p3 by simp
    have q3: "set_stoichs s3 = (s3, r3)"
      using set_stoichs_again[of s3 s2, OF p3] q by simp
    show ?thesis using p None q f3 ps3 q3 by (simp add: update_def s1_def[symmetric])
  qed
qed

section \<open>The alkalinity coefficient of hydrolysis row 1\<close>

lemma stoichs_row_1_result:
  assumes "run stoichs_put stoichs_row_1 s = (s', None)"
  shows "\<exists>n p. self_stoichs s' ''1_4'' = Some n \<and> self_stoichs s' ''1_10'' = Some p \<and>
           self_stoichs s' ''1_12'' = Some ((1 / 14) * n + (- 1.5 / 31) * p) \<and>
           dict_get (self_params s) ''i_NXS''
             - (Val 1 - dict_get (self_params s) ''f_SI'') * dict_get (self_params s) ''i_NSF'' = Val n \<and>
           dict_get (self_params s) ''i_PXS''
             - (Val 1 - dict_get (self_params s) ''f_SI'') * dict_get (self_params s) ''i_PSF'' = Val p"
  using assms
  by (auto simp: stoichs_row_1_def dict_get_def split: option.splits pyval.splits if_splits)

lemma later_rows_keep_row_1:
  "''1_4'' \<notin> fst ` set (stoichs_row_2 @ stoichs_row_3 @ stoichs_row_4 @ stoichs_row_5 @
     stoichs_row_6 @ stoichs_row_7 @ stoichs_row_8 @ stoichs_row_9 @ stoichs_row_10 @
     stoichs_row_11 @ stoichs_row_12 @ stoichs_row_13 @ stoichs_row_14 @ stoichs_row_15 @
     stoichs_row_16 @ stoichs_row_17 @ stoichs_row_18 @ stoichs_row_19 @ stoichs_row_20 @
     stoichs_row_21 @ stoichs_row_22 @ stoichs_row_23 @ stoichs_row_24 @ stoichs_row_25 @
     stoichs_row_26 @ stoichs_row_27 @ stoichs_row_28 @ stoichs_row_29 @ stoichs_row_30 @
     stoichs_row_31 @ stoichs_row_32 @ stoichs_row_33 @ stoichs_row_34 @ stoichs_row_35 @
     stoichs_row_36 @ stoichs_row_37 @ stoichs_row_38 @ stoichs_row_39 @ stoichs_row_40)"
  "''1_10'' \<notin> fst ` set (stoichs_row_2 @ stoichs_row_3 @ stoichs_row_4 @ stoichs_row_5 @
     stoichs_row_6 @ stoichs_row_7 @ stoichs_row_8 @ stoichs_row_9 @ stoichs_row_10 @
     stoichs_row_11 @ stoichs_row_12 @ stoichs_row_13 @ stoichs_row_14 @ stoichs_row_15 @
     stoichs_row_16 @ stoichs_row_17 @ stoichs_row_18 @ stoichs_row_19 @ stoichs_row_20 @
     stoichs_row_21 @ stoichs_row_22 @ stoichs_row_23 @ stoichs_row_24 @ stoichs_row_25 @
     stoichs_row_26 @ stoichs_row_27 @ stoichs_row_28 @ stoichs_row_29 @ stoichs_row_30 @
     stoichs_row_31 @ stoichs_row_32 @ stoichs_row_33 @ stoichs_row_34 @ stoichs_row_35 @
     stoichs_row_36 @ stoichs_row_37 @ stoichs_row_38 @ stoichs_row_39 @ stoichs_row_40)"
  "''1_12'' \<notin> fst ` set (stoichs_row_2 @ stoichs_row_3 @ stoichs_row_4 @ stoichs_row_5 @
     stoichs_row_6 @ stoichs_row_7 @ stoichs_row_8 @ stoichs_row_9 @ stoichs_row_10 @
     stoichs_row_11 @ stoichs_row_12 @ stoichs_row_13 @ stoichs_row_14 @ stoichs_row_15 @
     stoichs_row_16 @ stoichs_row_17 @ stoichs_row_18 @ stoichs_row_19 @ stoichs_row_20 @
     stoichs_row_21 @ stoichs_row_22 @ stoichs_row_23 @ stoichs_row_24 @ stoichs_row_25 @
     stoichs_row_26 @ stoichs_row_27 @ stoichs_row_28 @ stoichs_row_29 @ stoichs_row_30 @
     stoichs_row_31 @ stoichs_row_32 @ stoichs_row_33 @ stoichs_row_34 @ stoichs_row_35 @
     stoichs_row_36 @ stoichs_row_37 @ stoichs_row_38 @ stoichs_row_39 @ stoichs_row_40)"
  by (simp_all only: stoichs_rows_defs set_append image_Un list.set image_insert image_empty fst_conv)
     simp_all

lemma set_stoichs_row_1:
  assumes "set_stoichs s = (s', None)"
  shows "\<exists>n p. self_stoichs s' ''1_4'' = Some n \<and> self_stoichs s' ''1_10'' = Some p \<and>
           self_stoichs s' ''1_12'' = Some ((1 / 14) * n + (- 1.5 / 31) * p) \<and>
           dict_get (self_params s') ''i_NXS''
             - (Val 1 - dict_get (self_params s') ''f_SI'') * dict_get (self_params s') ''i_NSF'' = Val n \<and>
           dict_get (self_params s') ''i_PXS''
             - (Val 1 - dict_get (self_params s') ''f_SI'') * dict_get (self_params s') ''i_PSF'' = Val p"
proof -
  let ?rest = "stoichs_row_2 @ stoichs_row_3 @ stoichs_row_4 @ stoichs_row_5 @
     stoichs_row_6 @ stoichs_row_7 @ stoichs_row_8 @ stoichs_row_9 @ stoichs_row_10 @
     stoichs_row_11 @ stoichs_row_12 @ stoichs_row_13 @ stoichs_row_14 @ stoichs_row_15 @
     stoichs_row_16 @ stoichs_row_17 @ stoichs_row_18 @ stoichs_row_19 @ stoichs_row_20 @
     stoichs_row_21 @ stoichs_row_22 @ stoichs_row_23 @ stoichs_row_24 @ stoichs_row_25 @
     stoichs_row_26 @ stoichs_row_27 @ stoichs_row_28 @ stoichs_row_29 @ stoichs_row_30 @
     stoichs_row_31 @ stoichs_row_32 @ stoichs_row_33 @ stoichs_row_34 @ stoichs_row_35 @
     stoichs_row_36 @ stoichs_row_37 @ stoichs_row_38 @ stoichs_row_39 @ stoichs_row_40"
  have body: "set_stoichs_body = stoichs_row_1 @ ?rest"
    by (simp only: set_stoichs_body_def)
  obtain sa ra where a: "run stoichs_put stoichs_row_1 s = (sa, ra)"
    by (cases "run stoichs_put stoichs_row_1 s")
  from assms have ra: "ra = None" and rest: "run stoichs_put ?rest sa = (s', None)"
    unfolding set_stoichs_def body run_append a by (auto split: option.splits)
  from stoichs_row_1_result[OF a[unfolded ra]] obtain n p where
    n: "self_stoichs sa ''1_4'' = Some n" and p: "self_stoichs sa ''1_10'' = Some p"
    and a12: "self_stoichs sa ''1_12'' = Some ((1 / 14) * n + (- 1.5 / 31) * p)"
    and nv: "dict_get (self_params s) ''i_NXS''
             - (Val 1 - dict_get (self_params s) ''f_SI'') * dict_get (self_params s) ''i_NSF'' = Val n"
    and pv: "dict_get (self_params s) ''i_PXS''
             - (Val 1 - dict_get (self_params s) ''f_SI'') * dict_get (self_params s) ''i_PSF'' = Val p"
    by blast
  have s': "s' = fst (run stoichs_put ?rest sa)" by (simp add: rest)
  have keep: "self_stoichs s' ''1_4'' = self_stoichs sa ''1_4''"
    "self_stoichs s' ''1_10'' = self_stoichs sa ''1_10''"
    "self_stoichs s' ''1_12'' = self_stoichs sa ''1_12''"
    unfolding s' by (rule run_stoichs_other_keys, rule later_rows_keep_row_1)+
  have "self_params s' = self_params s"
    using run_stoichs_params[of set_stoichs_body s] assms by (simp add: set_stoichs_def)
  with keep n p a12 nv pv show ?thesis by simp
qed

section \<open>\<^verbatim>\<open>update\<close> and \<^verbatim>\<open>__init__\<close> run through\<close>

lemma run_kinetics_consts:
  "run kinetics_20C_put (map (\<lambda>(k, v). (k, \<lambda>s. Val v)) tbl) s =
     (s\<lparr>self_kinetics_20C := fold (\<lambda>(k, v) m. m(k \<mapsto> v)) tbl (self_kinetics_20C s)\<rparr>, None)"
  by (induction tbl arbitrary: s) auto

lemma fold_upd_map_of:
  "distinct (map fst tbl) \<Longrightarrow> fold (\<lambda>(k, v) m. m(k \<mapsto> v)) tbl m = m ++ map_of tbl"
proof (induction tbl arbitrary: m)
  case Nil
  then show ?case by simp
next
  case (Cons a tbl)
  obtain k v where a: "a = (k, v)" by (cases a)
  from Cons.prems have k: "k \<notin> dom (map_of tbl)" and d: "distinct (map fst tbl)"
    by (auto simp: a dom_map_of_conv_image_fst)
  have "fold (\<lambda>(k, v) m. m(k \<mapsto> v)) (a # tbl) m =
        fold (\<lambda>(k, v) m. m(k \<mapsto> v)) tbl (m(k \<mapsto> v))"
    by (simp only: a fold_simps split_conv)
  also have "\<dots> = m(k \<mapsto> v) ++ map_of tbl"
    by (rule Cons.IH[OF d])
  also have "\<dots> = (m ++ map_of tbl)(k \<mapsto> v)"
    using k by (simp add: map_add_upd_left)
  also have "\<dots> = m ++ map_of (a # tbl)"
    by (simp add: a)
  finally show ?case .
qed

lemma run_params_copy:
  assumes "list_all (\<lambda>k. self_kinetics_20C s k \<noteq> None) ks"
  shows "run params_put (map (\<lambda>k. (k, \<lambda>s. dict_get (self_kinetics_20C s) k)) ks) s =
           (s\<lparr>self_params := (\<lambda>k. if k \<in> set ks then self_kinetics_20C s k else self_params s k)\<rparr>,
            None)"
  using assms
proof (induction ks arbitrary: s)
  case Nil
  then show ?case by simp
next
  case (Cons k ks)
  from Cons.prems obtain v where v: "self_kinetics_20C s k = Some v" by auto
  let ?s = "s\<lparr>self_params := (self_params s)(k \<mapsto> v)\<rparr>"
  have "list_all (\<lambda>k. self_kinetics_20C ?s k \<noteq> None) ks"
    using Cons.prems by simp
  from Cons.IH[OF this] have
    "run params_put (map (\<lambda>k. (k, \<lambda>s. dict_get (self_kinetics_20C s) k)) ks) ?s =
       (?s\<lparr>self_params := (\<lambda>k'. if k' \<in> set ks then self_kinetics_20C ?s k' else self_params ?s k')\<rparr>,
        None)" .
  moreover have "(\<lambda>k'. if k' \<in> set ks then self_kinetics_20C ?s k' else self_params ?s k') =
                 (\<lambda>k'. if k' \<in> set (k # ks) then self_kinetics_20C s k' else self_params s k')"
    using v by (auto simp: fun_eq_iff)
  ultimately show ?case by (simp add: dict_get_def v)
qed

lemma set_params_ok:
  assumes "kinetics_ok s"
  shows "set_params s =
           (s\<lparr>self_params :=
                (\<lambda>k. if k \<in> set set_params_keys then self_kinetics_20C s k else self_params s k)\<rparr>,
            None)"
  unfolding set_params_def
  by (rule run_params_copy) (use assms in \<open>simp add: kinetics_ok_def\<close>)

lemma divisors_are_copied: "set stoichs_divisors \<subseteq> set set_params_keys"
  by (simp add: stoichs_divisors_def set_params_keys_def)

lemma set_params_params_ok:
  assumes "kinetics_ok s"
  shows "params_ok (fst (set_params s))"
proof -
  have "list_all (\<lambda>k. (if k \<in> set set_params_keys then self_kinetics_20C s k else self_params s k) \<noteq> None)
          set_params_keys"
    using assms unfolding kinetics_ok_def list_all_iff by simp
  moreover have "list_all (\<lambda>k. (if k \<in> set set_params_keys then self_kinetics_20C s k else self_params s k) \<noteq> Some 0)
          stoichs_divisors"
    using assms divisors_are_copied unfolding kinetics_ok_def list_all_iff by auto
  ultimately show ?thesis
    by (simp add: set_params_ok[OF assms] params_ok_def)
qed

text \<open>Each row runs through when the working parameters are complete and the divisors are not zero.\<close>

lemma stoichs_rows_ok:
  assumes "params_ok s"
  shows
    "snd (run stoichs_put stoichs_row_1 s) = None"
    "snd (run stoichs_put stoichs_row_2 s) = None"
    "snd (run stoichs_put stoichs_row_3 s) = None"
    "snd (run stoichs_put stoichs_row_4 s) = None"
    "snd (run stoichs_put stoichs_row_5 s) = None"
    "snd (run stoichs_put stoichs_row_6 s) = None"
    "snd (run stoichs_put stoichs_row_7 s) = None"
    "snd (run stoichs_put stoichs_row_8 s) = None"
    "snd (run stoichs_put stoichs_row_9 s) = None"
    "snd (run stoichs_put stoichs_row_10 s) = None"
    "snd (run stoichs_put stoichs_row_11 s) = None"
    "snd (run stoichs_put stoichs_row_12 s) = None"
    "snd (run stoichs_put stoichs_row_13 s) = None"
    "snd (run stoichs_put stoichs_row_14 s) = None"
    "snd (run stoichs_put stoichs_row_15 s) = None"
    "snd (run stoichs_put stoichs_row_16 s) = None"
    "snd (run stoichs_put stoichs_row_17 s) = None"
    "snd (run stoichs_put stoichs_row_18 s) = None"
    "snd (run stoichs_put stoichs_row_19 s) = None"
    "snd (run stoichs_put stoichs_row_20 s) = None"
    "snd (run stoichs_put stoichs_row_21 s) = None"
    "snd (run stoichs_put stoichs_row_22 s) = None"
    "snd (run stoichs_put stoichs_row_23 s) = None"
    "snd (run stoichs_put stoichs_row_24 s) = None"
    "snd (run stoichs_put stoichs_row_25 s) = None"
    "snd (run stoichs_put stoichs_row_26 s) = None"
    "snd (run stoichs_put stoichs_row_27 s) = None"
    "snd (run stoichs_put stoichs_row_28 s) = None"
    "snd (run stoichs_put stoichs_row_29 s) = None"
    "snd (run stoichs_put stoichs_row_30 s) = None"
    "snd (run stoichs_put stoichs_row_31 s) = None"
    "snd (run stoichs_put stoichs_row_32 s) = None"
    "snd (run stoichs_put stoichs_row_33 s) = None"
    "snd (run stoichs_put stoichs_row_34 s) = None"
    "snd (run stoichs_put stoichs_row_35 s) = None"
    "snd (run stoichs_put stoichs_row_36 s) = None"
    "snd (run stoichs_put stoichs_row_37 s) = None"
    "snd (run stoichs_put stoichs_row_38 s) = None"
    "snd (run stoichs_put stoichs_row_39 s) = None"
    "snd (run stoichs_put stoichs_row_40 s) = None"
proof -
  have have_key: "\<And>k. k \<in> set set_params_keys \<Longrightarrow> \<exists>v. self_params s k = Some v"
    using assms by (auto simp: params_ok_def list_all_iff)
  obtain i_NSF where p_i_NSF: "self_params s ''i_NSF'' = Some i_NSF"
    using have_key[of "''i_NSF''"] by (auto simp: set_params_keys_def)
  obtain i_PSF where p_i_PSF: "self_params s ''i_PSF'' = Some i_PSF"
    using have_key[of "''i_PSF''"] by (auto simp: set_params_keys_def)
  obtain i_NXI where p_i_NXI: "self_params s ''i_NXI'' = Some i_NXI"
    using have_key[of "''i_NXI''"] by (auto simp: set_params_keys_def)
  obtain i_PXI where p_i_PXI: "self_params s ''i_PXI'' = Some i_PXI"
    using have_key[of "''i_PXI''"] by (auto simp: set_params_keys_def)
  obtain i_TSSXI where p_i_TSSXI: "self_params s ''i_TSSXI'' = Some i_TSSXI"
    using have_key[of "''i_TSSXI''"] by (auto simp: set_params_keys_def)
  obtain i_NXS where p_i_NXS: "self_params s ''i_NXS'' = Some i_NXS"
    using have_key[of "''i_NXS''"] by (auto simp: set_params_keys_def)
  obtain i_PXS where p_i_PXS: "self_params s ''i_PXS'' = Some i_PXS"
    using have_key[of "''i_PXS''"] by (auto simp: set_params_keys_def)
  obtain i_TSSXS where p_i_TSSXS: "self_params s ''i_TSSXS'' = Some i_TSSXS"
    using have_key[of "''i_TSSXS''"] by (auto simp: set_params_keys_def)
  obtain i_NBM where p_i_NBM: "self_params s ''i_NBM'' = Some i_NBM"
    using have_key[of "''i_NBM''"] by (auto simp: set_params_keys_def)
  obtain i_PBM where p_i_PBM: "self_params s ''i_PBM'' = Some i_PBM"
    using have_key[of "''i_PBM''"] by (auto simp: set_params_keys_def)
  obtain i_TSSBM where p_i_TSSBM: "self_params s ''i_TSSBM'' = Some i_TSSBM"
    using have_key[of "''i_TSSBM''"] by (auto simp: set_params_keys_def)
  obtain Y_H where p_Y_H: "self_params s ''Y_H'' = Some Y_H"
    using have_key[of "''Y_H''"] by (auto simp: set_params_keys_def)
  obtain Y_PHA where p_Y_PHA: "self_params s ''Y_PHA'' = Some Y_PHA"
    using have_key[of "''Y_PHA''"] by (auto simp: set_params_keys_def)
  obtain Y_PAO where p_Y_PAO: "self_params s ''Y_PAO'' = Some Y_PAO"
    using have_key[of "''Y_PAO''"] by (auto simp: set_params_keys_def)
  obtain Y_PO4 where p_Y_PO4: "self_params s ''Y_PO4'' = Some Y_PO4"
    using have_key[of "''Y_PO4''"] by (auto simp: set_params_keys_def)
  obtain Y_AOB where p_Y_AOB: "self_params s ''Y_AOB'' = Some Y_AOB"
    using have_key[of "''Y_AOB''"] by (auto simp: set_params_keys_def)
  obtain Y_NOB where p_Y_NOB: "self_params s ''Y_NOB'' = Some Y_NOB"
    using have_key[of "''Y_NOB''"] by (auto simp: set_params_keys_def)
  obtain f_SI where p_f_SI: "self_params s ''f_SI'' = Some f_SI"
    using have_key[of "''f_SI''"] by (auto simp: set_params_keys_def)
  obtain f_XI where p_f_XI: "self_params s ''f_XI'' = Some f_XI"
    using have_key[of "''f_XI''"] by (auto simp: set_params_keys_def)
  obtain n_G where p_n_G: "self_params s ''n_G'' = Some n_G"
    using have_key[of "''n_G''"] by (auto simp: set_params_keys_def)
  note pvals = p_i_NSF p_i_PSF p_i_NXI p_i_PXI p_i_TSSXI p_i_NXS p_i_PXS p_i_TSSXS p_i_NBM p_i_PBM p_i_TSSBM p_Y_H p_Y_PHA p_Y_PAO p_Y_PO4 p_Y_AOB p_Y_NOB p_f_SI p_f_XI p_n_G
  have nz: "Y_H \<noteq> 0" "n_G \<noteq> 0" "Y_PAO \<noteq> 0" "Y_AOB \<noteq> 0" "Y_NOB \<noteq> 0"
    using assms by (simp_all add: params_ok_def stoichs_divisors_def pvals)
  show
    "snd (run stoichs_put stoichs_row_1 s) = None"
    "snd (run stoichs_put stoichs_row_2 s) = None"
    "snd (run stoichs_put stoichs_row_3 s) = None"
    "snd (run stoichs_put stoichs_row_4 s) = None"
    "snd (run stoichs_put stoichs_row_5 s) = None"
    "snd (run stoichs_put stoichs_row_6 s) = None"
    "snd (run stoichs_put stoichs_row_7 s) = None"
    "snd (run stoichs_put stoichs_row_8 s) = None"
    "snd (run stoichs_put stoichs_row_9 s) = None"
    "snd (run stoichs_put stoichs_row_10 s) = None"
    "snd (run stoichs_put stoichs_row_11 s) = None"
    "snd (run stoichs_put stoichs_row_12 s) = None"
    "snd (run stoichs_put stoichs_row_13 s) = None"
    "snd (run stoichs_put stoichs_row_14 s) = None"
    "snd (run stoichs_put stoichs_row_15 s) = None"
    "snd (run stoichs_put stoichs_row_16 s) = None"
    "snd (run stoichs_put stoichs_row_17 s) = None"
    "snd (run stoichs_put stoichs_row_18 s) = None"
    "snd (run stoichs_put stoichs_row_19 s) = None"
    "snd (run stoichs_put stoichs_row_20 s) = None"
    "snd (run stoichs_put stoichs_row_21 s) = None"
    "snd (run stoichs_put stoichs_row_22 s) = None"
    "snd (run stoichs_put stoichs_row_23 s) = None"
    "snd (run stoichs_put stoichs_row_24 s) = None"
    "snd (run stoichs_put stoichs_row_25 s) = None"
    "snd (run stoichs_put stoichs_row_26 s) = None"
    "snd (run stoichs_put stoichs_row_27 s) = None"
    "snd (run stoichs_put stoichs_row_28 s) = None"
    "snd (run stoichs_put stoichs_row_29 s) = None"
    "snd (run stoichs_put stoichs_row_30 s) = None"
    "snd (run stoichs_put stoichs_row_31 s) = None"
    "snd (run stoichs_put stoichs_row_32 s) = None"
    "snd (run stoichs_put stoichs_row_33 s) = None"
    "snd (run stoichs_put stoichs_row_34 s) = None"
    "snd (run stoichs_put stoichs_row_35 s) = None"
    "snd (run stoichs_put stoichs_row_36 s) = None"
    "snd (run stoichs_put stoichs_row_37 s) = None"
    "snd (run stoichs_put stoichs_row_38 s) = None"
    "snd (run stoichs_put stoichs_row_39 s) = None"
    "snd (run stoichs_put stoichs_row_40 s) = None"
    by (simp_all add: stoichs_rows_defs dict_get_def pvals nz)
qed

lemma params_ok_cong: "self_params s' = self_params s \<Longrightarrow> params_ok s' = params_ok s"
  by (simp add: params_ok_def)

lemma run_stoichs_append_ok:
  assumes "\<forall>s. params_ok s \<longrightarrow> snd (run stoichs_put as s) = None"
    and "\<forall>s. params_ok s \<longrightarrow> snd (run stoichs_put bs s) = None"
  shows "\<forall>s. params_ok s \<longrightarrow> snd (run stoichs_put (as @ bs) s) = None"
proof (intro allI impI)
  fix s assume ok: "params_ok s"
  obtain s' r where a: "run stoichs_put as s = (s', r)" by (cases "run stoichs_put as s")
  have r: "r = None" using assms(1) ok a by auto
  have "self_params s' = self_params s"
    using run_stoichs_params[of as s] a by simp
  from params_ok_cong[OF this] ok have "params_ok s'" by simp
  then have "snd (run stoichs_put bs s') = None" using assms(2) by blast
  then show "snd (run stoichs_put (as @ bs) s) = None"
    by (simp add: run_append a r)
qed

lemma stoichs_rows_all_ok:
  "\<forall>s. params_ok s \<longrightarrow> snd (run stoichs_put stoichs_row_1 s) = None"
  "\<forall>s. params_ok s \<longrightarrow> snd (run stoichs_put stoichs_row_2 s) = None"
  "\<forall>s. params_ok s \<longrightarrow> snd (run stoichs_put stoichs_row_3 s) = None"
  "\<forall>s. params_ok s \<longrightarrow> snd (run stoichs_put stoichs_row_4 s) = None"
  "\<forall>s. params_ok s \<longrightarrow> snd (run stoichs_put stoichs_row_5 s) = None"
  "\<forall>s. params_ok s \<longrightarrow> snd (run stoichs_put stoichs_row_6 s) = None"
  "\<forall>s. params_ok s \<longrightarrow> snd (run stoichs_put stoichs_row_7 s) = None"
  "\<forall>s. params_ok s \<longrightarrow> snd (run stoichs_put stoichs_row_8 s) = None"
  "\<forall>s. params_ok s \<longrightarrow> snd (run stoichs_put stoichs_row_9 s) = None"
  "\<forall>s. params_ok s \<longrightarrow> snd (run stoichs_put stoichs_row_10 s) = None"
  "\<forall>s. params_ok s \<longrightarrow> snd (run stoichs_put stoichs_row_11 s) = None"
  "\<forall>s. params_ok s \<longrightarrow> snd (run stoichs_put stoichs_row_12 s) = None"
  "\<forall>s. params_ok s \<longrightarrow> snd (run stoichs_put stoichs_row_13 s) = None"
  "\<forall>s. params_ok s \<longrightarrow> snd (run stoichs_put stoichs_row_14 s) = None"
  "\<forall>s. params_ok s \<longrightarrow> snd (run stoichs_put stoichs_row_15 s) = None"
  "\<forall>s. params_ok s \<longrightarrow> snd (run stoichs_put stoichs_row_16 s) = None"
  "\<forall>s. params_ok s \<longrightarrow> snd (run stoichs_put stoichs_row_17 s) = None"
  "\<forall>s. params_ok s \<longrightarrow> snd (run stoichs_put stoichs_row_18 s) = None"
  "\<forall>s. params_ok s \<longrightarrow> snd (run stoichs_put stoichs_row_19 s) = None"
  "\<forall>s. params_ok s \<longrightarrow> snd (run stoichs_put stoichs_row_20 s) = None"
  "\<forall>s. params_ok s \<longrightarrow> snd (run stoichs_put stoichs_row_21 s) = None"
  "\<forall>s. params_ok s \<longrightarrow> snd (run stoichs_put stoichs_row_22 s) = None"
  "\<forall>s. params_ok s \<longrightarrow> snd (run stoichs_put stoichs_row_23 s) = None"
  "\<forall>s. params_ok s \<longrightarrow> snd (run stoichs_put stoichs_row_24 s) = None"
  "\<forall>s. params_ok s \<longrightarrow> snd (run stoichs_put stoichs_row_25 s) = None"
  "\<forall>s. params_ok s \<longrightarrow> snd (run stoichs_put stoichs_row_26 s) = None"
  "\<forall>s. params_ok s \<longrightarrow> snd (run stoichs_put stoichs_row_27 s) = None"
  "\<forall>s. params_ok s \<longrightarrow> snd (run stoichs_put stoichs_row_28 s) = None"
  "\<forall>s. params_ok s \<longrightarrow> snd (run stoichs_put stoichs_row_29 s) = None"
  "\<forall>s. params_ok s \<longrightarrow> snd (run stoichs_put stoichs_row_30 s) = None"
  "\<forall>s. params_ok s \<longrightarrow> snd (run stoichs_put stoichs_row_31 s) = None"
  "\<forall>s. params_ok s \<longrightarrow> snd (run stoichs_put stoichs_row_32 s) = None"
  "\<forall>s. params_ok s \<longrightarrow> snd (run stoichs_put stoichs_row_33 s) = None"
  "\<forall>s. params_ok s \<longrightarrow> snd (run stoichs_put stoichs_row_34 s) = None"
  "\<forall>s. params_ok s \<longrightarrow> snd (run stoichs_put stoichs_row_35 s) = None"
  "\<forall>s. params_ok s \<longrightarrow> snd (run stoichs_put stoichs_row_36 s) = None"
  "\<forall>s. params_ok s \<longrightarrow> snd (run stoichs_put stoichs_row_37 s) = None"
  "\<forall>s. params_ok s \<longrightarrow> snd (run stoichs_put stoichs_row_38 s) = None"
  "\<forall>s. params_ok s \<longrightarrow> snd (run stoichs_put stoichs_row_39 s) = None"
  "\<forall>s. params_ok s \<longrightarrow> snd (run stoichs_put stoichs_row_40 s) = None"
  by (simp_all add: stoichs_rows_ok)

lemma set_stoichs_ok: "params_ok s \<Longrightarrow> snd (set_stoichs s) = None"
proof -
  have "\<forall>s. params_ok s \<longrightarrow> snd (run stoichs_put set_stoichs_body s) = None"
    unfolding set_stoichs_body_def by (intro run_stoichs_append_ok stoichs_rows_all_ok)
  then show "params_ok s \<Longrightarrow> snd (set_stoichs s) = None"
    by (simp add: set_stoichs_def)
qed

text \<open>
  With complete reference kinetics and non-zero divisors \<^verbatim>\<open>update\<close> returns
  normally; it sets the three scalars, copies the reference kinetics and rebuilds the
  coefficients, and touches nothing else.
\<close>

lemma update_ok:
  assumes "kinetics_ok s"
  shows "\<exists>m. update s ww_temp DO =
           (s\<lparr>self_temperature := ww_temp, self_bulk_DO := DO, self_delta_t := ww_temp - 20,
               self_params :=
                 (\<lambda>k. if k \<in> set set_params_keys then self_kinetics_20C s k else self_params s k),
               self_stoichs := m\<rparr>, None)"
proof -
  define s1 where "s1 = s\<lparr>self_temperature := ww_temp, self_bulk_DO := DO, self_delta_t := ww_temp - 20\<rparr>"
  have k1: "kinetics_ok s1" using assms by (simp add: kinetics_ok_def s1_def)
  define s2 where "s2 = s1\<lparr>self_params :=
      (\<lambda>k. if k \<in> set set_params_keys then self_kinetics_20C s k else self_params s k)\<rparr>"
  have same: "self_kinetics_20C s1 = self_kinetics_20C s" "self_params s1 = self_params s"
    by (simp_all add: s1_def)
  have p: "set_params s1 = (s2, None)"
    by (simp add: set_params_ok[OF k1] s2_def same cong: if_cong)
  have "params_ok s2"
    using set_params_params_ok[OF k1] p by simp
  then have ok: "snd (set_stoichs s2) = None" by (rule set_stoichs_ok)
  define m where "m = self_stoichs (fst (set_stoichs s2))"
  have fr: "fst (set_stoichs s2) = s2\<lparr>self_stoichs := m\<rparr>"
    unfolding set_stoichs_def m_def by (rule run_stoichs_frame)
  have "set_stoichs s2 = (s2\<lparr>self_stoichs := m\<rparr>, None)"
    using ok fr by (simp add: prod_eq_iff)
  then have "update s ww_temp DO = (s2\<lparr>self_stoichs := m\<rparr>, None)"
    by (simp add: update_def s1_def[symmetric] p)
  moreover have "s2\<lparr>self_stoichs := m\<rparr> =
      s\<lparr>self_temperature := ww_temp, self_bulk_DO := DO, self_delta_t := ww_temp - 20,
         self_params :=
           (\<lambda>k. if k \<in> set set_params_keys then self_kinetics_20C s k else self_params s k),
         self_stoichs := m\<rparr>"
    by (simp add: s2_def s1_def)
  ultimately show ?thesis by (intro exI[of _ m]) simp
qed

lemma update_kinetics_ok:
  assumes "kinetics_ok s"
  shows "kinetics_ok (fst (update s ww_temp DO))"
proof -
  from update_ok[OF assms, of ww_temp DO] obtain m where
    "update s ww_temp DO =
           (s\<lparr>self_temperature := ww_temp, self_bulk_DO := DO, self_delta_t := ww_temp - 20,
               self_params :=
                 (\<lambda>k. if k \<in> set set_params_keys then self_kinetics_20C s k else self_params s k),
               self_stoichs := m\<rparr>, None)" ..
  then show ?thesis using assms by (simp add: kinetics_ok_def)
qed

lemma alter_kinetic_20C_kinetics_ok:
  assumes "kinetics_ok s"
  shows "kinetics_ok (fst (alter_kinetic_20C s name new_val))"
  using assms by (auto simp: kinetics_ok_def alter_kinetic_20C_def list_all_iff)

text \<open>The reference kinetics after \<^verbatim>\<open>_set_ideal_kinetics_20C_to_defaults\<close>.\<close>

lemma table_keys: "map fst ideal_kinetics_20C_table = set_params_keys"
  by (simp add: ideal_kinetics_20C_table_def set_params_keys_def)

lemma table_distinct: "distinct set_params_keys"
  by (simp add: set_params_keys_def)

lemma defaults_result:
  "set_ideal_kinetics_20C_to_defaults s =
     (s\<lparr>self_kinetics_20C := self_kinetics_20C s ++ map_of ideal_kinetics_20C_table\<rparr>, None)"
  unfolding set_ideal_kinetics_20C_to_defaults_def run_kinetics_consts
  by (simp add: fold_upd_map_of table_keys table_distinct)

lemma table_has_keys: "k \<in> set set_params_keys \<Longrightarrow> map_of ideal_kinetics_20C_table k \<noteq> None"
  unfolding table_keys[symmetric] by (simp add: map_of_eq_None_iff)

lemma table_no_other_keys: "k \<notin> set set_params_keys \<Longrightarrow> map_of ideal_kinetics_20C_table k = None"
  unfolding table_keys[symmetric] by (simp add: map_of_eq_None_iff)

lemma table_divisors:
  "list_all (\<lambda>k. map_of ideal_kinetics_20C_table k \<noteq> Some 0) stoichs_divisors"
  by (simp add: stoichs_divisors_def ideal_kinetics_20C_table_def)

lemma defaults_kinetics_ok: "kinetics_ok (fst (set_ideal_kinetics_20C_to_defaults s))"
proof -
  have 1: "(self_kinetics_20C s ++ map_of ideal_kinetics_20C_table) k \<noteq> None"
    if "k \<in> set set_params_keys" for k
    using table_has_keys[OF that] by (auto simp: map_add_def split: option.splits)
  have 2: "(self_kinetics_20C s ++ map_of ideal_kinetics_20C_table) k \<noteq> Some 0"
    if "k \<in> set stoichs_divisors" for k
  proof -
    from that divisors_are_copied have "k \<in> set set_params_keys" by blast
    from table_has_keys[OF this] obtain v where v: "map_of ideal_kinetics_20C_table k = Some v"
      by auto
    moreover have "v \<noteq> 0" using table_divisors that v by (auto simp: list_all_iff)
    ultimately show ?thesis by (simp add: map_add_def)
  qed
  show ?thesis
    using 1 2 by (simp add: defaults_result kinetics_ok_def list_all_iff)
qed

text \<open>
  \<^verbatim>\<open>__init__\<close> returns normally in every interpreter state: it allocates four lists
  after the caller's, and leaves the reference kinetics and the working parameters at the
  defaults.
\<close>

lemma ASM2d_N2O_init_result:
  "\<exists>m. ASM2d_N2O_init w ww_temp DO =
     (w\<lparr>store := (store w)(next_addr w := [],
                              Suc (next_addr w) := replicate 24 0,
                              Suc (Suc (next_addr w)) := replicate 52 1,
                              Suc (Suc (Suc (next_addr w))) := replicate 40 0),
         next_addr := Suc (Suc (Suc (Suc (next_addr w)))),
         self_temperature := ww_temp,
         self_bulk_DO := DO,
         self_kinetics_20C := map_of ideal_kinetics_20C_table,
         self_params := map_of ideal_kinetics_20C_table,
         self_stoichs := m,
         self_comps := Suc (next_addr w),
         self_delta_t := ww_temp - 20,
         self_KLa := 60 * 24 / (9 - 2),
         self_monods := Suc (Suc (next_addr w)),
         self_rate_res := Suc (Suc (Suc (next_addr w)))\<rparr>, None)"
proof -
  define s1 where "s1 = fst (set_ideal_kinetics_20C_to_defaults (asm_model_init w 20 2))"
  have d: "set_ideal_kinetics_20C_to_defaults (asm_model_init w 20 2) = (s1, None)"
    by (simp add: s1_def defaults_result)
  have s1: "s1 = (asm_model_init w 20 2)\<lparr>self_kinetics_20C := map_of ideal_kinetics_20C_table\<rparr>"
    by (simp add: s1_def defaults_result asm_model_init_def new_list_def)
  define s1' where "s1' = s1\<lparr>self_temperature := ww_temp, self_bulk_DO := DO,
                           self_delta_t := ww_temp - 20\<rparr>"
  have "kinetics_ok s1" unfolding s1_def by (rule defaults_kinetics_ok)
  then have ok: "kinetics_ok s1'" by (simp add: kinetics_ok_def s1'_def)
  from update_ok[OF ok, of ww_temp DO] obtain m where
    u: "update s1' ww_temp DO =
           (s1'\<lparr>self_temperature := ww_temp, self_bulk_DO := DO, self_delta_t := ww_temp - 20,
               self_params :=
                 (\<lambda>k. if k \<in> set set_params_keys then self_kinetics_20C s1' k else self_params s1' k),
               self_stoichs := m\<rparr>, None)" ..
  have p: "(\<lambda>k. if k \<in> set set_params_keys then self_kinetics_20C s1' k else self_params s1' k) =
           map_of ideal_kinetics_20C_table"
  proof
    fix k
    show "(if k \<in> set set_params_keys then self_kinetics_20C s1' k else self_params s1' k) =
          map_of ideal_kinetics_20C_table k"
      by (simp add: s1'_def s1 asm_model_init_def new_list_def table_no_other_keys)
  qed
  show ?thesis
    by (rule exI[of _ m])
       (simp add: ASM2d_N2O_init_def d s1'_def[symmetric] u p,
        simp add: s1'_def s1 asm_model_init_def new_list_def)
qed

lemma model0_fields:
  "next_addr model0 = 4" "self_comps model0 = 1" "self_monods model0 = 2"
  "self_rate_res model0 = 3" "stdout model0 = []"
  "store model0 = (\<lambda>_. [])(0 := [], 1 := replicate 24 0, 2 := replicate 52 1, 3 := replicate 40 0)"
  "self_temperature model0 = 20" "self_bulk_DO model0 = 2" "self_delta_t model0 = 0"
  "self_KLa model0 = 60 * 24 / (9 - 2)"
  "self_kinetics_20C model0 = map_of ideal_kinetics_20C_table"
  "self_params model0 = map_of ideal_kinetics_20C_table"
proof -
  from ASM2d_N2O_init_result[of world0 20 2] obtain m where
    "ASM2d_N2O_init world0 20 2 =
     (world0\<lparr>store := (store world0)(next_addr world0 := [],
                              Suc (next_addr world0) := replicate 24 0,
                              Suc (Suc (next_addr world0)) := replicate 52 1,
                              Suc (Suc (Suc (next_addr world0))) := replicate 40 0),
         next_addr := Suc (Suc (Suc (Suc (next_addr world0)))),
         self_temperature := 20,
         self_bulk_DO := 2,
         self_kinetics_20C := map_of ideal_kinetics_20C_table,
         self_params := map_of ideal_kinetics_20C_table,
         self_stoichs := m,
         self_comps := Suc (next_addr world0),
         self_delta_t := 20 - 20,
         self_KLa := 60 * 24 / (9 - 2),
         self_monods := Suc (Suc (next_addr world0)),
         self_rate_res := Suc (Suc (Suc (next_addr world0)))\<rparr>, None)" ..
  then have m0: "model0 = world0\<lparr>store := (store world0)(next_addr world0 := [],
                              Suc (next_addr world0) := replicate 24 0,
                              Suc (Suc (next_addr world0)) := replicate 52 1,
                              Suc (Suc (Suc (next_addr world0))) := replicate 40 0),
         next_addr := Suc (Suc (Suc (Suc (next_addr world0)))),
         self_temperature := 20,
         self_bulk_DO := 2,
         self_kinetics_20C := map_of ideal_kinetics_20C_table,
         self_params := map_of ideal_kinetics_20C_table,
         self_stoichs := m,
         self_comps := Suc (next_addr world0),
         self_delta_t := 20 - 20,
         self_KLa := 60 * 24 / (9 - 2),
         self_monods := Suc (Suc (next_addr world0)),
         self_rate_res := Suc (Suc (Suc (next_addr world0)))\<rparr>"
    by (simp add: model0_def)
  show "next_addr model0 = 4" "self_comps model0 = 1" "self_monods model0 = 2"
    "self_rate_res model0 = 3" "stdout model0 = []"
    "store model0 = (\<lambda>_. [])(0 := [], 1 := replicate 24 0, 2 := replicate 52 1, 3 := replicate 40 0)"
    "self_temperature model0 = 20" "self_bulk_DO model0 = 2" "self_delta_t model0 = 0"
    "self_KLa model0 = 60 * 24 / (9 - 2)"
    "self_kinetics_20C model0 = map_of ideal_kinetics_20C_table"
    "self_params model0 = map_of ideal_kinetics_20C_table"
    by (simp_all add: m0 world0_def numeral_eq_Suc)
qed

lemma model0_constructed: "ASM2d_N2O_init world0 20 2 = (model0, None)"
  using ASM2d_N2O_init_result[of world0 20 2] by (auto simp: model0_def)

lemma caller0_fields:
  "self_monods caller0 = 2" "self_rate_res caller0 = 3"
  "store caller0 2 = replicate 52 1" "store caller0 3 = replicate 40 0"
  "store caller0 4 = replicate 24 1" "store caller0 5 = replicate 24 1"
  "self_params caller0 = map_of ideal_kinetics_20C_table"
  "self_bulk_DO caller0 = 2"
  by (simp_all add: caller0_def new_list_def model0_fields)

lemma caller_pp_fields:
  "self_monods caller_pp = 2" "self_rate_res caller_pp = 3"
  "store caller_pp 2 = replicate 52 1" "store caller_pp 3 = replicate 40 0"
  "store caller_pp 4 = (replicate 24 1)[17 := 0.35]" "store caller_pp 5 = replicate 24 1"
  "self_params caller_pp = map_of ideal_kinetics_20C_table"
  by (simp_all add: caller_pp_def new_list_def model0_fields)

lemma model0_kinetics_ok: "kinetics_ok model0"
  using table_has_keys table_divisors
  by (simp add: kinetics_ok_def model0_fields list_all_iff)

lemma update_model0:
  "snd (update model0 ww_temp DO) = None"
  "self_params (fst (update model0 ww_temp DO)) = map_of ideal_kinetics_20C_table"
proof -
  from update_ok[OF model0_kinetics_ok, of ww_temp DO] obtain m where
    u: "update model0 ww_temp DO =
           (model0\<lparr>self_temperature := ww_temp, self_bulk_DO := DO, self_delta_t := ww_temp - 20,
               self_params :=
                 (\<lambda>k. if k \<in> set set_params_keys then self_kinetics_20C model0 k
                      else self_params model0 k),
               self_stoichs := m\<rparr>, None)" ..
  show "snd (update model0 ww_temp DO) = None" by (simp add: u)
  show "self_params (fst (update model0 ww_temp DO)) = map_of ideal_kinetics_20C_table"
    by (simp add: u model0_fields fun_eq_iff)
qed

text \<open>
  C9. For every state of the object, temperature and DO: after \<^verbatim>\<open>update(T, DO)\<close> a
  second \<^verbatim>\<open>update(T, DO)\<close> with the same arguments ends the same way and leaves the
  same state; in particular the snapshots of the working parameters and of the
  stoichiometry taken after the first and after the second call are equal (over the
  reals, by which the floats are modelled).
\<close>

theorem update_twice_same_snapshots:
  "get_params (fst (update (fst (update s ww_temp DO)) ww_temp DO)) =
     get_params (fst (update s ww_temp DO))
   \<and> get_stoichs (fst (update (fst (update s ww_temp DO)) ww_temp DO)) =
     get_stoichs (fst (update s ww_temp DO))
   \<and> update (fst (update s ww_temp DO)) ww_temp DO = update s ww_temp DO"
  by (simp add: update_again)

text \<open>
  C7. Whenever \<^verbatim>\<open>update\<close> returns normally, the stoichiometry holds for hydrolysis
  row 1 a nitrogen coefficient \<open>n\<close> (component 4) and a phosphorus coefficient \<open>p\<close>
  (component 10), both derived in this update from the current working parameters, and
  the alkalinity coefficient (component 12) is \<open>(1/14) n + (-1.5/31) p\<close> of these two.
\<close>

theorem hydrolysis_row_1_alkalinity:
  assumes "update s ww_temp DO = (s', None)"
  shows "\<exists>n p. self_stoichs s' ''1_4'' = Some n \<and> self_stoichs s' ''1_10'' = Some p \<and>
           self_stoichs s' ''1_12'' = Some ((1 / 14) * n + (- 1.5 / 31) * p) \<and>
           dict_get (self_params s') ''i_NXS''
             - (Val 1 - dict_get (self_params s') ''f_SI'') * dict_get (self_params s') ''i_NSF'' = Val n \<and>
           dict_get (self_params s') ''i_PXS''
             - (Val 1 - dict_get (self_params s') ''f_SI'') * dict_get (self_params s') ''i_PSF'' = Val p"
proof -
  define s1 where "s1 = s\<lparr>self_temperature := ww_temp, self_bulk_DO := DO, self_delta_t := ww_temp - 20\<rparr>"
  obtain s2 r2 where p: "set_params s1 = (s2, r2)" by (cases "set_params s1")
  from assms have "set_stoichs s2 = (s', None)"
    by (cases r2) (simp_all add: update_def s1_def[symmetric] p)
  then show ?thesis by (rule set_stoichs_row_1)
qed

text \<open>At the default model: \<open>n\<close> = 0.01, \<open>p\<close> = 0 and the coefficient is 1/1400.\<close>

theorem hydrolysis_row_1_alkalinity_witness:
  "update model0 20 2 = (fst (update model0 20 2), None) \<and>
   self_stoichs (fst (update model0 20 2)) ''1_4'' = Some 0.01 \<and>
   self_stoichs (fst (update model0 20 2)) ''1_10'' = Some 0 \<and>
   self_stoichs (fst (update model0 20 2)) ''1_12'' = Some (1 / 1400)"
proof -
  have u: "update model0 20 2 = (fst (update model0 20 2), None)"
    using update_model0(1)[of 20 2] by (simp add: prod_eq_iff)
  from hydrolysis_row_1_alkalinity[OF u] show ?thesis
    using u by (auto simp: update_model0(2) dict_get_def ideal_kinetics_20C_table_def)
qed

section \<open>Rejected overrides of a reference kinetic constant\<close>

text \<open>
  C4 (as amended). When the new value is not positive, or the name is not a key of the
  reference kinetics, \<^verbatim>\<open>alter_kinetic_20C\<close> prints its error line and returns
  normally: the reference kinetics (every stored value and the set of keys) and the rest
  of the object are unchanged, and no exception is raised.
\<close>

theorem alter_kinetic_20C_rejected:
  assumes "new_val \<le> 0 \<or> self_kinetics_20C s name = None"
  shows "alter_kinetic_20C s name new_val =
           (s\<lparr>stdout := stdout s @ [''ERROR IN ALTERING 20C KINETICS. NO PARAMETER WAS CHANGED'']\<rparr>,
            None)
         \<and> self_kinetics_20C (fst (alter_kinetic_20C s name new_val)) = self_kinetics_20C s"
  using assms by (auto simp: alter_kinetic_20C_def)

theorem alter_kinetic_20C_rejected_witness:
  "alter_kinetic_20C model0 ''mu_H'' (- 1) =
     (model0\<lparr>stdout := stdout model0 @ [''ERROR IN ALTERING 20C KINETICS. NO PARAMETER WAS CHANGED'']\<rparr>,
      None)
   \<and> self_kinetics_20C (fst (alter_kinetic_20C model0 ''mu_H'' (- 1))) = self_kinetics_20C model0"
  using alter_kinetic_20C_rejected [of "- 1" model0 "''mu_H''"] by simp

text \<open>
  The claim as stated fails: the call with \<^verbatim>\<open>("mu_H", -1.0)\<close> does not raise
  \<open>InvalidParameterError\<close>; it raises nothing.
\<close>

theorem alter_kinetic_20C_no_exception:
  "snd (alter_kinetic_20C model0 ''mu_H'' (- 1)) \<noteq> Some InvalidParameterError"
  by (simp add: alter_kinetic_20C_def)

end
